theory Spec2Isabelle
  imports Complex_Main "HOL-Library.AList" "HOL-Library.Sublist"
    "HOL-Library.List_Lexorder" "HOL-Library.Char_ord"
begin

section \<open>Python values, dictionaries and exceptions\<close>

text \<open>
  The pipeline passes JSON-shaped Python values around: feed entries, the rewriter's
  response, candidates, publish payloads and publish results are all \<^verbatim>\<open>dict\<close>s.
  A dictionary is an association list in insertion order (the order matters where the
  source iterates over \<^verbatim>\<open>.items()\<close>); lookups go through \<^const>\<open>map_of\<close>,
  assignment through \<^const>\<open>AList.update\<close> and \<^verbatim>\<open>del\<close> through
  \<^const>\<open>AList.delete\<close>.  A \<^verbatim>\<open>str\<close> is the list of its UTF-8 bytes.
\<close>

datatype pyval =
    PNone
  | PBool bool
  | PInt int
  | PFloat real
  | PStr string
  | PList "pyval list"
  | PDict "(string \<times> pyval) list"

type_synonym dict = "(string \<times> pyval) list"

datatype exn = KeyError | AttributeError | TypeError | ValueError | RequestError

type_synonym 'a res = "exn + 'a"

definition rbind :: "'a res \<Rightarrow> ('a \<Rightarrow> 'b res) \<Rightarrow> 'b res" where
  "rbind m f = (case m of Inl e \<Rightarrow> Inl e | Inr x \<Rightarrow> f x)"

text \<open>Python truthiness (\<^verbatim>\<open>if x:\<close>, \<^verbatim>\<open>not x\<close>, \<^verbatim>\<open>x or y\<close>).\<close>

fun truthy :: "pyval \<Rightarrow> bool" where
  "truthy PNone = False"
| "truthy (PBool b) = b"
| "truthy (PInt i) = (i \<noteq> 0)"
| "truthy (PFloat r) = (r \<noteq> 0)"
| "truthy (PStr s) = (s \<noteq> [])"
| "truthy (PList xs) = (xs \<noteq> [])"
| "truthy (PDict d) = (d \<noteq> [])"

text \<open>\<^verbatim>\<open>d.get(k, dflt)\<close>, \<^verbatim>\<open>d.get(k)\<close>, \<^verbatim>\<open>d[k]\<close> and \<^verbatim>\<open>d[k] = v\<close> on a dictionary.\<close>

definition dict_get :: "dict \<Rightarrow> string \<Rightarrow> pyval \<Rightarrow> pyval" where
  "dict_get d k dflt = (case map_of d k of None \<Rightarrow> dflt | Some v \<Rightarrow> v)"

definition dict_get1 :: "dict \<Rightarrow> string \<Rightarrow> pyval" where
  "dict_get1 d k = dict_get d k PNone"

definition dict_item :: "dict \<Rightarrow> string \<Rightarrow> pyval res" where
  "dict_item d k = (case map_of d k of None \<Rightarrow> Inl KeyError | Some v \<Rightarrow> Inr v)"

definition dict_set :: "dict \<Rightarrow> string \<Rightarrow> pyval \<Rightarrow> dict" where
  "dict_set d k v = AList.update k v d"

text \<open>\<^verbatim>\<open>x.get(k, dflt)\<close> on a value that need not be a dictionary: anything else has
  no attribute \<^verbatim>\<open>get\<close>.\<close>

definition attr_get :: "pyval \<Rightarrow> string \<Rightarrow> pyval \<Rightarrow> pyval res" where
  "attr_get x k dflt = (case x of PDict d \<Rightarrow> Inr (dict_get d k dflt) | _ \<Rightarrow> Inl AttributeError)"

text \<open>\<^verbatim>\<open>x[k]\<close> on a value that need not be a dictionary.\<close>

definition subscript :: "pyval \<Rightarrow> string \<Rightarrow> pyval res" where
  "subscript x k = (case x of PDict d \<Rightarrow> dict_item d k | _ \<Rightarrow> Inl TypeError)"

section \<open>Library functions of Python\<close>

text \<open>
  The source calls library functions whose full behaviour (Unicode tables, HTML parsing,
  float parsing and printing) is outside this development.  They are the fields of a
  record that every modelled function takes as its first argument, so each theorem holds
  for whatever these functions compute:
  \<^item> \<open>py_lower\<close>, \<open>py_upper\<close>: \<^verbatim>\<open>str.lower\<close>, \<^verbatim>\<open>str.upper\<close>;
  \<^item> \<open>py_isspace\<close>: the whitespace of \<^verbatim>\<open>str.strip()\<close> and of \<^verbatim>\<open>\s\<close> in \<^verbatim>\<open>re\<close>;
  \<^item> \<open>py_isword\<close>: the class \<^verbatim>\<open>\w\<close> of \<^verbatim>\<open>re\<close>;
  \<^item> \<open>py_nfkd\<close>: \<^verbatim>\<open>unicodedata.normalize("NFKD", s)\<close>;
  \<^item> \<open>py_repr\<close>: \<^verbatim>\<open>str(x)\<close> for a value that is not a \<^verbatim>\<open>str\<close>;
  \<^item> \<open>py_float\<close>: \<^verbatim>\<open>float(x)\<close>, which may raise;
  \<^item> \<open>py_chars\<close>: \<^verbatim>\<open>list(s)\<close>, the characters (code points) of a \<^verbatim>\<open>str\<close>, each as
    a string of its own;
  \<^item> \<open>py_html_text\<close>: \<^verbatim>\<open>BeautifulSoup(s, "html.parser").get_text(separator=" ", strip=True)\<close>.
\<close>

record pylib =
  py_lower :: "string \<Rightarrow> string"
  py_upper :: "string \<Rightarrow> string"
  py_isspace :: "char \<Rightarrow> bool"
  py_isword :: "char \<Rightarrow> bool"
  py_nfkd :: "string \<Rightarrow> string"
  py_repr :: "pyval \<Rightarrow> string"
  py_float :: "pyval \<Rightarrow> pyval res"
  py_chars :: "string \<Rightarrow> string list"
  py_html_text :: "string \<Rightarrow> string"

text \<open>The slice \<^verbatim>\<open>s[:n]\<close> of a \<^verbatim>\<open>str\<close>: its first \<open>n\<close> characters.\<close>

definition py_take :: "pylib \<Rightarrow> nat \<Rightarrow> string \<Rightarrow> string" where
  "py_take lib n s = concat (take n (py_chars lib s))"

text \<open>\<^verbatim>\<open>str(x)\<close> and f-string interpolation, \<^verbatim>\<open>x.lower()\<close> and \<^verbatim>\<open>x.upper()\<close> on a value
  that need not be a \<^verbatim>\<open>str\<close>, \<^verbatim>\<open>s.strip()\<close>, \<^verbatim>\<open>s.strip("-")\<close> and
  \<^verbatim>\<open>s.rstrip("-")\<close>.\<close>

definition py_str :: "pylib \<Rightarrow> pyval \<Rightarrow> string" where
  "py_str lib x = (case x of PStr s \<Rightarrow> s | _ \<Rightarrow> py_repr lib x)"

definition str_lower :: "pylib \<Rightarrow> pyval \<Rightarrow> string res" where
  "str_lower lib x = (case x of PStr s \<Rightarrow> Inr (py_lower lib s) | _ \<Rightarrow> Inl AttributeError)"

definition str_upper :: "pylib \<Rightarrow> pyval \<Rightarrow> string res" where
  "str_upper lib x = (case x of PStr s \<Rightarrow> Inr (py_upper lib s) | _ \<Rightarrow> Inl AttributeError)"

definition rstrip_with :: "(char \<Rightarrow> bool) \<Rightarrow> string \<Rightarrow> string" where
  "rstrip_with p s = rev (dropWhile p (rev s))"

definition strip_with :: "(char \<Rightarrow> bool) \<Rightarrow> string \<Rightarrow> string" where
  "strip_with p s = rstrip_with p (dropWhile p s)"

definition strip :: "pylib \<Rightarrow> string \<Rightarrow> string" where
  "strip lib s = strip_with (py_isspace lib) s"

definition is_hyphen :: "char \<Rightarrow> bool" where
  "is_hyphen c = (c = CHR ''-'')"

text \<open>\<^verbatim>\<open>re.sub(r"[...]+", "-", s)\<close>: every maximal run of characters of the class \<open>p\<close>
  is replaced by one hyphen.\<close>

function sub_runs :: "(char \<Rightarrow> bool) \<Rightarrow> string \<Rightarrow> string" where
  "sub_runs p [] = []"
| "sub_runs p (c # cs) =
     (if p c then CHR ''-'' # sub_runs p (dropWhile p cs) else c # sub_runs p cs)"
  by pat_completeness auto
termination
  by (relation "measure (\<lambda>(p, s). length s)")
     (auto simp: length_dropWhile_le less_Suc_eq_le)

section \<open>scraper.py: ingestion, rewriting and geo resolution\<close>

definition VALID_CATEGORIES :: "string list" where
  "VALID_CATEGORIES =
     [''ai'', ''gaming'', ''space'', ''technology'', ''medicine'', ''society'', ''robotics'']"

subsection \<open>The seen set and the feed ingester\<close>

text \<open>
  \<^verbatim>\<open>seen_articles.json\<close> holds a list of links, or is missing or unreadable (\<open>None\<close>).
  \<^verbatim>\<open>load_seen\<close> turns it into a set (empty when the file cannot be read).
  \<^verbatim>\<open>save_seen\<close> opens the file with mode \<^verbatim>\<open>"w"\<close>, which empties it, and then writes the
  sorted set with \<^verbatim>\<open>json.dump\<close>; an \<^verbatim>\<open>OSError\<close> is printed and swallowed.  So there are
  three outcomes: the set is written; opening fails and the file stays as it was; or the
  write fails after the file was opened, and what is left is empty or cut short, which
  \<^verbatim>\<open>json.load\<close> cannot read.
\<close>

datatype write_outcome = Written | OpenFailed | WriteFailed

definition load_seen :: "string list option \<Rightarrow> string set" where
  "load_seen file = (case file of None \<Rightarrow> {} | Some links \<Rightarrow> set links)"

definition save_seen ::
  "write_outcome \<Rightarrow> string list option \<Rightarrow> string set \<Rightarrow> string list option" where
  "save_seen outcome file seen =
     (case outcome of
        Written \<Rightarrow> Some (sorted_list_of_set seen)
      | OpenFailed \<Rightarrow> file
      | WriteFailed \<Rightarrow> None)"

text \<open>An entry of a parsed feed: the attributes \<^verbatim>\<open>scrape_feeds\<close> reads with
  \<^verbatim>\<open>getattr\<close> (\<open>None\<close> when the attribute is missing), and the timestamp that
  \<^verbatim>\<open>_parse_published\<close> computes for it.\<close>

record feed_item =
  fi_link :: "string option"
  fi_title :: "string option"
  fi_summary :: "string option"
  fi_description :: "string option"
  fi_published :: string

definition getattr :: "string option \<Rightarrow> string \<Rightarrow> string" where
  "getattr a dflt = (case a of None \<Rightarrow> dflt | Some s \<Rightarrow> s)"

definition clean_html :: "pylib \<Rightarrow> string \<Rightarrow> string" where
  "clean_html lib raw_html = (if raw_html = [] then [] else py_html_text lib raw_html)"

definition feed_entry :: "pylib \<Rightarrow> pyval \<Rightarrow> pyval \<Rightarrow> feed_item \<Rightarrow> string \<Rightarrow> dict" where
  "feed_entry lib name url e link =
     (let summary_raw = (if getattr (fi_summary e) [] \<noteq> [] then getattr (fi_summary e) []
                         else getattr (fi_description e) []);
          summary = clean_html lib summary_raw
      in [(''source_name'', name),
          (''source_url'', url),
          (''title'', PStr (getattr (fi_title e) ''Untitled'')),
          (''link'', PStr link),
          (''published'', PStr (fi_published e)),
          (''summary'', PStr (py_take lib 2000 summary))])"

text \<open>The inner loop of \<^verbatim>\<open>scrape_feeds\<close> (lines 136-154) over the entries of one feed;
  the accumulator is \<^verbatim>\<open>new_entries\<close> and \<^verbatim>\<open>seen\<close>.\<close>

fun scrape_entries ::
  "pylib \<Rightarrow> pyval \<Rightarrow> pyval \<Rightarrow> feed_item list \<Rightarrow> dict list \<times> string set \<Rightarrow> dict list \<times> string set" where
  "scrape_entries lib name url [] acc = acc"
| "scrape_entries lib name url (e # es) (new_entries, seen) =
     (let link = getattr (fi_link e) []
      in if link = [] \<or> link \<in> seen then scrape_entries lib name url es (new_entries, seen)
         else scrape_entries lib name url es
                (new_entries @ [feed_entry lib name url e link], insert link seen))"

text \<open>The outer loop (lines 123-154).  Each configured source comes with the outcome
  of \<^verbatim>\<open>feedparser.parse\<close> on its URL in this run: the entries, or an exception.\<close>

fun scrape_sources ::
  "pylib \<Rightarrow> (dict \<times> feed_item list res) list \<Rightarrow> dict list \<times> string set \<Rightarrow> dict list \<times> string set" where
  "scrape_sources lib [] acc = acc"
| "scrape_sources lib ((source, parsed) # rest) acc =
     (let name = dict_get source ''name'' (PStr ''Unknown'');
          url = dict_get source ''url'' (PStr '''')
      in if \<not> truthy url then scrape_sources lib rest acc
         else case parsed of
                Inl exc \<Rightarrow> scrape_sources lib rest acc
              | Inr entries \<Rightarrow> scrape_sources lib rest (scrape_entries lib name url entries acc))"

text \<open>\<^verbatim>\<open>scrape_feeds\<close> (lines 111-159): returns the new entries and the seen file as it
  is after the run; \<open>outcome\<close> is how the write at the end of the run went.\<close>

definition scrape_feeds ::
  "pylib \<Rightarrow> (dict \<times> feed_item list res) list \<Rightarrow> string list option \<Rightarrow> write_outcome
     \<Rightarrow> dict list \<times> string list option" where
  "scrape_feeds lib sources file outcome =
     (let (new_entries, seen) = scrape_sources lib sources ([], load_seen file)
      in (new_entries, save_seen outcome file seen))"

subsection \<open>The geo resolver\<close>

text \<open>\<^verbatim>\<open>x.items()\<close> and \<^verbatim>\<open>x.keys()\<close> exist on dictionaries only; \<^verbatim>\<open>k in d\<close> raises
  for an unhashable \<open>k\<close> and is false for any other key that is not a string (the keys
  of a dictionary read from JSON are strings).\<close>

definition items :: "pyval \<Rightarrow> dict res" where
  "items x = (case x of PDict d \<Rightarrow> Inr d | _ \<Rightarrow> Inl AttributeError)"

definition key_in :: "pyval \<Rightarrow> dict \<Rightarrow> bool res" where
  "key_in k d =
     (case k of
        PStr s \<Rightarrow> Inr (map_of d s \<noteq> None)
      | PList xs \<Rightarrow> Inl TypeError
      | PDict kvs \<Rightarrow> Inl TypeError
      | _ \<Rightarrow> Inr False)"

text \<open>The dictionary built from a gazetteer location at lines 191-196 and 202-207.\<close>

definition canonical :: "pyval \<Rightarrow> pyval res" where
  "canonical loc =
     rbind (subscript loc ''name'') (\<lambda>name.
     rbind (subscript loc ''lat'') (\<lambda>lat.
     rbind (subscript loc ''lon'') (\<lambda>lon.
     rbind (subscript loc ''countryCode'') (\<lambda>cc.
       Inr (PDict [(''name'', name), (''lat'', lat), (''lon'', lon), (''countryCode'', cc)])))))"

text \<open>The first loop (lines 189-196): the first key of \<^verbatim>\<open>known\<close>, in the order of the
  dictionary, whose lowercase form is a substring of the lowercase guess.\<close>

fun match_known :: "pylib \<Rightarrow> pyval \<Rightarrow> dict \<Rightarrow> pyval option res" where
  "match_known lib geo_name [] = Inr None"
| "match_known lib geo_name ((key, loc) # rest) =
     rbind (str_lower lib geo_name) (\<lambda>g.
       if sublist (py_lower lib key) g
       then rbind (canonical loc) (\<lambda>r. Inr (Some r))
       else match_known lib geo_name rest)"

text \<open>The second loop (lines 199-207) over \<^verbatim>\<open>company_hq\<close>.\<close>

fun match_company :: "pylib \<Rightarrow> pyval \<Rightarrow> dict \<Rightarrow> dict \<Rightarrow> pyval option res" where
  "match_company lib geo_name known [] = Inr None"
| "match_company lib geo_name known ((company, hq_key) # rest) =
     rbind (str_lower lib geo_name) (\<lambda>g.
       if sublist (py_lower lib company) g
       then rbind (key_in hq_key known) (\<lambda>present.
              if present
              then rbind (subscript (PDict known) (py_str lib hq_key)) (\<lambda>loc.
                   rbind (canonical loc) (\<lambda>r. Inr (Some r)))
              else match_company lib geo_name known rest)
       else match_company lib geo_name known rest)"

text \<open>The fallback (lines 210-218) on the model's own coordinates.\<close>

definition own_coordinates :: "pylib \<Rightarrow> dict \<Rightarrow> pyval res" where
  "own_coordinates lib geo_raw =
     (if dict_get1 geo_raw ''lat'' \<noteq> PNone \<and> dict_get1 geo_raw ''lon'' \<noteq> PNone
      then rbind (rbind (dict_item geo_raw ''lat'') (py_float lib)) (\<lambda>lat.
           rbind (rbind (dict_item geo_raw ''lon'') (py_float lib)) (\<lambda>lon.
             Inr (PDict [(''name'', dict_get geo_raw ''name'' (PStr ''Unknown'')),
                         (''lat'', lat),
                         (''lon'', lon),
                         (''countryCode'', dict_get geo_raw ''countryCode'' (PStr ''''))])))
      else Inr PNone)"

text \<open>\<^verbatim>\<open>_resolve_geo\<close> (lines 176-218).  The result is a dictionary, \<^verbatim>\<open>None\<close>, or an
  exception.\<close>

definition resolve_geo :: "pylib \<Rightarrow> pyval \<Rightarrow> dict \<Rightarrow> pyval res" where
  "resolve_geo lib geo_raw geo_map =
     (case geo_raw of
        PDict d \<Rightarrow>
          if d = [] then Inr PNone
          else
            let geo_name = dict_get d ''name'' (PStr '''');
                known = dict_get geo_map ''known_locations'' (PDict []);
                company_hq = dict_get geo_map ''company_hq'' (PDict [])
            in rbind (items known) (\<lambda>kn.
               rbind (match_known lib geo_name kn) (\<lambda>m.
                 case m of
                   Some r \<Rightarrow> Inr r
                 | None \<Rightarrow>
                     rbind (items company_hq) (\<lambda>hq.
                     rbind (match_company lib geo_name kn hq) (\<lambda>m'.
                       case m' of
                         Some r \<Rightarrow> Inr r
                       | None \<Rightarrow> own_coordinates lib d))))
      | _ \<Rightarrow> Inr PNone)"

subsection \<open>The rewriter\<close>

text \<open>\<^verbatim>\<open>x[:n]\<close> on a value: strings and lists can be sliced, anything else raises.\<close>

definition slice_to :: "pylib \<Rightarrow> nat \<Rightarrow> pyval \<Rightarrow> pyval res" where
  "slice_to lib n x =
     (case x of
        PStr s \<Rightarrow> Inr (PStr (py_take lib n s))
      | PList xs \<Rightarrow> Inr (PList (take n xs))
      | _ \<Rightarrow> Inl TypeError)"

text \<open>Lines 312-315: a value that is not a list becomes the empty list; the first seven
  elements are turned into strings, lowercased and stripped.\<close>

definition clean_tags :: "pylib \<Rightarrow> pyval \<Rightarrow> pyval list" where
  "clean_tags lib tags =
     (let tags' = (case tags of PList xs \<Rightarrow> xs | _ \<Rightarrow> [])
      in map (\<lambda>t. PStr (strip lib (py_lower lib (py_str lib t)))) (take 7 tags'))"

text \<open>Lines 303-306: the category of the response, lowercased, or the default.\<close>

definition response_category :: "pylib \<Rightarrow> dict \<Rightarrow> string res" where
  "response_category lib result =
     rbind (str_lower lib (dict_get result ''category'' (PStr ''technology''))) (\<lambda>category.
       Inr (if category \<notin> set VALID_CATEGORIES then ''technology'' else category))"

text \<open>Lines 301-331, from the parsed response \<^verbatim>\<open>result\<close> to the candidate.\<close>

definition rewrite :: "pylib \<Rightarrow> dict \<Rightarrow> dict \<Rightarrow> pyval \<Rightarrow> dict res" where
  "rewrite lib entry geo_map result =
     rbind (items result) (\<lambda>r.
     rbind (response_category lib r) (\<lambda>category.
     rbind (slice_to lib 250 (dict_get r ''excerpt'' (PStr ''''))) (\<lambda>excerpt.
     let tags = clean_tags lib (dict_get r ''tags'' (PList [])) in
     rbind (resolve_geo lib (dict_get1 r ''geo'') geo_map) (\<lambda>geo.
     rbind (dict_item entry ''source_name'') (\<lambda>source_name.
     rbind (dict_item entry ''source_url'') (\<lambda>source_url.
     rbind (dict_item entry ''link'') (\<lambda>link.
     rbind (dict_item entry ''published'') (\<lambda>published_at.
     rbind (dict_item entry ''title'') (\<lambda>entry_title.
       Inr [(''source_name'', source_name),
            (''source_url'', source_url),
            (''original_link'', link),
            (''published'', published_at),
            (''category'', PStr category),
            (''title'', dict_get r ''title'' entry_title),
            (''excerpt'', excerpt),
            (''content'', dict_get r ''content'' (PStr '''')),
            (''tags'', PList tags),
            (''geo'', geo)])))))))))"

text \<open>What the prompt reads before the \<^verbatim>\<open>try\<close> block: the gazetteer's two tables
  (\<^verbatim>\<open>_build_known_locations_hint\<close>) and five keys of the entry.  The text of the prompt
  is not modelled.\<close>

definition prompt_reads :: "dict \<Rightarrow> dict \<Rightarrow> unit res" where
  "prompt_reads entry geo_map =
     rbind (items (dict_get geo_map ''known_locations'' (PDict []))) (\<lambda>names.
     rbind (items (dict_get geo_map ''company_hq'' (PDict []))) (\<lambda>companies.
     rbind (dict_item entry ''source_name'') (\<lambda>a.
     rbind (dict_item entry ''title'') (\<lambda>b.
     rbind (dict_item entry ''link'') (\<lambda>c.
     rbind (dict_item entry ''published'') (\<lambda>d.
     rbind (dict_item entry ''summary'') (\<lambda>e. Inr ())))))))"

text \<open>\<^verbatim>\<open>process_article\<close> (lines 221-344).  \<open>response\<close> is the completion of the
  generative service after \<^verbatim>\<open>json.loads\<close>, or the exception that the call or the
  parsing raised.  Every exception inside the \<^verbatim>\<open>try\<close> block makes the function
  return \<^verbatim>\<open>None\<close>.\<close>

definition process_article ::
  "pylib \<Rightarrow> string \<Rightarrow> dict \<Rightarrow> dict \<Rightarrow> pyval res \<Rightarrow> dict option res" where
  "process_article lib api_key entry geo_map response =
     (if api_key = [] then Inr None
      else rbind (prompt_reads entry geo_map) (\<lambda>u.
        case rbind response (rewrite lib entry geo_map) of
          Inl exc \<Rightarrow> Inr None
        | Inr candidate \<Rightarrow> Inr (Some candidate)))"

section \<open>bot.py: the candidate store and the review front-end\<close>

subsection \<open>Identifiers and the review message\<close>

text \<open>One reading of \<^verbatim>\<open>datetime.now(timezone.utc)\<close>: the calendar date (a year of four
  digits) and the \<^verbatim>\<open>isoformat()\<close> text.\<close>

record clock =
  now_year :: nat
  now_month :: nat
  now_day :: nat
  now_iso :: string

definition digit :: "nat \<Rightarrow> char" where
  "digit n = ''0123456789'' ! (n mod 10)"

text \<open>\<^verbatim>\<open>strftime("%Y-%m-%d")\<close>.\<close>

definition date_str :: "clock \<Rightarrow> string" where
  "date_str clk =
     [digit (now_year clk div 1000), digit (now_year clk div 100), digit (now_year clk div 10),
      digit (now_year clk), CHR ''-'',
      digit (now_month clk div 10), digit (now_month clk), CHR ''-'',
      digit (now_day clk div 10), digit (now_day clk)]"

text \<open>\<^verbatim>\<open>slugify\<close> (lines 70-76) and \<^verbatim>\<open>make_article_id\<close> (lines 79-82).\<close>

definition slugify :: "pylib \<Rightarrow> string \<Rightarrow> string" where
  "slugify lib text0 =
     (let text1 = strip lib (py_lower lib text0);
          text2 = filter (\<lambda>c. py_isword lib c \<or> py_isspace lib c \<or> c = CHR ''-'') text1;
          text3 = sub_runs (\<lambda>c. py_isspace lib c \<or> c = CHR ''_'') text2;
          text4 = sub_runs is_hyphen text3
      in strip_with is_hyphen (py_take lib 60 text4))"

definition make_article_id :: "pylib \<Rightarrow> clock \<Rightarrow> string \<Rightarrow> string" where
  "make_article_id lib clk title = date_str clk @ ''-'' @ slugify lib title"

text \<open>The emoji are written as their UTF-8 bytes.\<close>

definition CATEGORY_EMOJI :: "(string \<times> string) list" where
  "CATEGORY_EMOJI =
     [(''ai'', [CHR 0xF0, CHR 0x9F, CHR 0xA7, CHR 0xA0]),
      (''gaming'', [CHR 0xF0, CHR 0x9F, CHR 0x8E, CHR 0xAE]),
      (''space'', [CHR 0xF0, CHR 0x9F, CHR 0x9A, CHR 0x80]),
      (''technology'', [CHR 0xE2, CHR 0x9A, CHR 0x99, CHR 0xEF, CHR 0xB8, CHR 0x8F]),
      (''medicine'', [CHR 0xF0, CHR 0x9F, CHR 0x92, CHR 0x8A]),
      (''society'', [CHR 0xF0, CHR 0x9F, CHR 0x91, CHR 0xA5]),
      (''robotics'', [CHR 0xF0, CHR 0x9F, CHR 0xA4, CHR 0x96])]"

definition NEWSPAPER :: string where
  "NEWSPAPER = [CHR 0xF0, CHR 0x9F, CHR 0x93, CHR 0xB0]"

definition PUSHPIN :: string where
  "PUSHPIN = [CHR 0xF0, CHR 0x9F, CHR 0x93, CHR 0x8D]"

definition NL :: string where
  "NL = [CHR 0x0A]"

text \<open>\<^verbatim>\<open>CATEGORY_EMOJI.get(cat, ...)\<close>: an unhashable key raises.\<close>

definition emoji_of :: "pyval \<Rightarrow> string res" where
  "emoji_of cat =
     (case cat of
        PStr s \<Rightarrow> Inr (case map_of CATEGORY_EMOJI s of None \<Rightarrow> NEWSPAPER | Some e \<Rightarrow> e)
      | PList xs \<Rightarrow> Inl TypeError
      | PDict kvs \<Rightarrow> Inl TypeError
      | _ \<Rightarrow> Inr NEWSPAPER)"

fun map_res :: "('a \<Rightarrow> 'b res) \<Rightarrow> 'a list \<Rightarrow> 'b list res" where
  "map_res f [] = Inr []"
| "map_res f (x # xs) = rbind (f x) (\<lambda>y. rbind (map_res f xs) (\<lambda>ys. Inr (y # ys)))"

fun join :: "string \<Rightarrow> string list \<Rightarrow> string" where
  "join sep [] = []"
| "join sep [x] = x"
| "join sep (x # y # ys) = x @ sep @ join sep (y # ys)"

text \<open>One tag of line 93: \<^verbatim>\<open>f"#{t.replace('-', '_')}"\<close>.\<close>

definition hashtag :: "pyval \<Rightarrow> string res" where
  "hashtag t =
     (case t of
        PStr s \<Rightarrow> Inr (''#'' @ map (\<lambda>c. if c = CHR ''-'' then CHR ''_'' else c) s)
      | _ \<Rightarrow> Inl AttributeError)"

text \<open>Line 93 on the sliced tags: a list is walked element by element, a string
  character by character.\<close>

definition hashtags :: "pylib \<Rightarrow> pyval \<Rightarrow> string res" where
  "hashtags lib tags =
     (case tags of
        PList xs \<Rightarrow> rbind (map_res hashtag xs) (\<lambda>hs. Inr (join '' '' hs))
      | PStr s \<Rightarrow> rbind (map_res hashtag (map PStr (py_chars lib s))) (\<lambda>hs. Inr (join '' '' hs))
      | _ \<Rightarrow> Inl TypeError)"

text \<open>\<^verbatim>\<open>format_candidate\<close> (lines 88-103).  The statements run in the order of the
  source: the category and its emoji, the name of the location, the tags, and then the
  parts of the returned f-string.\<close>

definition format_candidate :: "pylib \<Rightarrow> dict \<Rightarrow> string res" where
  "format_candidate lib article =
     (let cat = dict_get article ''category'' (PStr ''technology'') in
      rbind (emoji_of cat) (\<lambda>emoji.
      rbind (attr_get (dict_get article ''geo'' (PDict [])) ''name'' (PStr ''Global'')) (\<lambda>geo_name.
      rbind (rbind (slice_to lib 5 (dict_get article ''tags'' (PList []))) (hashtags lib)) (\<lambda>tags.
      rbind (str_upper lib cat) (\<lambda>cat_upper.
      rbind (slice_to lib 200 (dict_get article ''excerpt'' (PStr ''''))) (\<lambda>excerpt.
      rbind (attr_get (dict_get article ''source'' (PDict [])) ''name'' (PStr ''Unknown''))
        (\<lambda>source_name.
        Inr (NEWSPAPER @ '' <b>NEW ARTICLE CANDIDATE</b>'' @ NL @ NL
             @ ''Category: '' @ emoji @ '' <b>'' @ cat_upper @ ''</b>'' @ NL
             @ ''Title: <b>'' @ py_str lib (dict_get article ''title'' (PStr ''Untitled''))
             @ ''</b>'' @ NL @ NL
             @ ''Excerpt: <i>'' @ py_str lib excerpt @ ''</i>'' @ NL @ NL
             @ ''Source: '' @ py_str lib source_name @ NL
             @ ''Location: '' @ PUSHPIN @ '' '' @ py_str lib geo_name @ NL
             @ ''Tags: '' @ tags @ NL))))))))"

subsection \<open>The stores and the handlers\<close>

text \<open>
  The three module-level stores of \<^verbatim>\<open>bot.py\<close>: \<^verbatim>\<open>pending\<close> (id to candidate),
  \<^verbatim>\<open>published\<close> (titles, in order) and \<^verbatim>\<open>editing\<close> (reviewer id to candidate id).
  A handler is modelled as one atomic step on this state.  The messages it sends through
  Telegram are recorded symbolically, in order; a message with buttons carries the
  identifier the buttons refer to.
\<close>

record bot_state =
  pending :: "(pyval \<times> dict) list"
  published :: "pyval list"
  editing :: "(int \<times> string) list"

datatype notice =
    NotAvailable
  | Publishing pyval
  | Published pyval
  | PublishFailed pyval pyval
  | Rejected pyval
  | Editing pyval
  | TitleUpdated string string
  | Candidate string pyval
  | ScrapeEmpty
  | ScrapeFound nat
  | ScrapeError exn

record outcome =
  state :: bot_state
  sent :: "notice list"
  raised :: "exn option"

text \<open>\<^verbatim>\<open>data.split("_", 1)\<close>: the text before the first underscore and the rest, or a
  single part when there is no underscore.\<close>

definition split_once :: "string \<Rightarrow> string list" where
  "split_once s =
     (if CHR ''_'' \<in> set s
      then [takeWhile (\<lambda>c. c \<noteq> CHR ''_'') s, tl (dropWhile (\<lambda>c. c \<noteq> CHR ''_'') s)]
      else [s])"

text \<open>The payload built on approval (lines 205-220).  Python evaluates the default
  argument of \<^verbatim>\<open>get\<close> before the call, so the nested \<^verbatim>\<open>article.get("source", {}).get(...)\<close>
  runs, and may raise, even when \<^verbatim>\<open>source_name\<close> is present.\<close>

definition approve_payload :: "clock \<Rightarrow> string \<Rightarrow> dict \<Rightarrow> dict res" where
  "approve_payload clk article_id article =
     (let date = (if truthy (dict_get1 article ''published'') then dict_get1 article ''published''
                  else dict_get article ''date'' (PStr (now_iso clk)))
      in rbind (attr_get (dict_get article ''source'' (PDict [])) ''name'' (PStr ''Unknown''))
        (\<lambda>src_name. rbind (attr_get (dict_get article ''source'' (PDict [])) ''url'' (PStr ''''))
        (\<lambda>src_url. Inr
          [(''id'', PStr article_id),
           (''title'', dict_get article ''title'' (PStr ''Untitled'')),
           (''category'', dict_get article ''category'' (PStr ''technology'')),
           (''date'', date),
           (''excerpt'', dict_get article ''excerpt'' (PStr '''')),
           (''source'', PDict [(''name'', dict_get article ''source_name'' src_name),
                               (''url'', dict_get article ''original_link'' src_url)]),
           (''image'', dict_get article ''image''
                         (PDict [(''url'', PStr ''/images/articles/placeholder.jpg''),
                                 (''alt'', PStr ''Article image'')])),
           (''tags'', dict_get article ''tags'' (PList [])),
           (''geo'', dict_get1 article ''geo''),
           (''featured'', dict_get article ''featured'' (PBool False)),
           (''content'', dict_get article ''content'' (PStr ''''))])))"

text \<open>The approve branch of \<^verbatim>\<open>handle_callback\<close> (lines 198-239).  \<open>publish\<close> is the
  call of \<^verbatim>\<open>publish_to_github\<close> on the payload: it returns the result dictionary or
  raises.\<close>

definition approve :: "(dict \<Rightarrow> dict res) \<Rightarrow> clock \<Rightarrow> bot_state \<Rightarrow> string \<Rightarrow> dict \<Rightarrow> outcome" where
  "approve publish clk st article_id article =
     (case dict_item article ''title'' of
        Inl e \<Rightarrow> \<lparr>state = st, sent = [], raised = Some e\<rparr>
      | Inr title \<Rightarrow>
         (case rbind (approve_payload clk article_id article) publish of
            Inl e \<Rightarrow> \<lparr>state = st, sent = [Publishing title], raised = Some e\<rparr>
          | Inr result \<Rightarrow>
             (case dict_item result ''success'' of
                Inl e \<Rightarrow> \<lparr>state = st, sent = [Publishing title], raised = Some e\<rparr>
              | Inr ok \<Rightarrow>
                 if truthy ok
                 then \<lparr>state = st\<lparr>published := published st @ [title],
                                    pending := AList.delete (PStr article_id) (pending st)\<rparr>,
                       sent = [Publishing title, Published title], raised = None\<rparr>
                 else (case dict_item result ''message'' of
                         Inl e \<Rightarrow> \<lparr>state = st, sent = [Publishing title], raised = Some e\<rparr>
                       | Inr msg \<Rightarrow> \<lparr>state = st, sent = [Publishing title, PublishFailed title msg],
                                     raised = None\<rparr>))))"

definition reject :: "bot_state \<Rightarrow> string \<Rightarrow> dict \<Rightarrow> outcome" where
  "reject st article_id article =
     (case dict_item article ''title'' of
        Inl e \<Rightarrow> \<lparr>state = st, sent = [], raised = Some e\<rparr>
      | Inr title \<Rightarrow> \<lparr>state = st\<lparr>pending := AList.delete (PStr article_id) (pending st)\<rparr>,
                      sent = [Rejected title], raised = None\<rparr>)"

definition edit :: "bot_state \<Rightarrow> int \<Rightarrow> string \<Rightarrow> dict \<Rightarrow> outcome" where
  "edit st user_id article_id article =
     (let st' = st\<lparr>editing := AList.update user_id article_id (editing st)\<rparr>
      in (case dict_item article ''title'' of
            Inl e \<Rightarrow> \<lparr>state = st', sent = [], raised = Some e\<rparr>
          | Inr title \<Rightarrow> \<lparr>state = st', sent = [Editing title], raised = None\<rparr>))"

text \<open>\<^verbatim>\<open>handle_callback\<close> (lines 177-255): \<open>data\<close> is the callback data of the pressed
  button, \<open>user_id\<close> the reviewer who pressed it.\<close>

definition handle_callback ::
  "(dict \<Rightarrow> dict res) \<Rightarrow> clock \<Rightarrow> bot_state \<Rightarrow> int \<Rightarrow> string \<Rightarrow> outcome" where
  "handle_callback publish clk st user_id data =
     (if data = [] then \<lparr>state = st, sent = [], raised = None\<rparr>
      else case split_once data of
        [action, article_id] \<Rightarrow>
          (case map_of (pending st) (PStr article_id) of
             None \<Rightarrow> \<lparr>state = st, sent = [NotAvailable], raised = None\<rparr>
           | Some article \<Rightarrow>
               if article = [] then \<lparr>state = st, sent = [NotAvailable], raised = None\<rparr>
               else if action = ''approve'' then approve publish clk st article_id article
               else if action = ''reject'' then reject st article_id article
               else if action = ''edit'' then edit st user_id article_id article
               else \<lparr>state = st, sent = [], raised = None\<rparr>)
      | _ \<Rightarrow> \<lparr>state = st, sent = [], raised = None\<rparr>)"

text \<open>The candidate after the two assignments of lines 271 and 275.\<close>

definition retitled :: "dict \<Rightarrow> string \<Rightarrow> string \<Rightarrow> dict" where
  "retitled article new_title new_id =
     dict_set (dict_set article ''title'' (PStr new_title)) ''id'' (PStr new_id)"

text \<open>\<^verbatim>\<open>handle_message\<close> (lines 258-283): \<open>text\<close> is the text of the message.  The
  stores are updated before the reply is formatted, so they keep the update when
  \<^verbatim>\<open>format_candidate\<close> raises.\<close>

definition handle_message :: "pylib \<Rightarrow> clock \<Rightarrow> bot_state \<Rightarrow> int \<Rightarrow> string \<Rightarrow> outcome" where
  "handle_message lib clk st user_id text =
     (case map_of (editing st) user_id of
        None \<Rightarrow> \<lparr>state = st, sent = [], raised = None\<rparr>
      | Some article_id \<Rightarrow>
          let st1 = st\<lparr>editing := AList.delete user_id (editing st)\<rparr>
          in (case map_of (pending st) (PStr article_id) of
               None \<Rightarrow> \<lparr>state = st1, sent = [NotAvailable], raised = None\<rparr>
             | Some article \<Rightarrow>
                 if article = [] then \<lparr>state = st1, sent = [NotAvailable], raised = None\<rparr>
                 else
                   (let new_title = strip lib text;
                        new_id = make_article_id lib clk new_title;
                        article' = retitled article new_title new_id;
                        st2 = st1\<lparr>pending := AList.update (PStr new_id) article'
                                                (AList.delete (PStr article_id) (pending st))\<rparr>
                    in (case format_candidate lib article' of
                          Inl e \<Rightarrow> \<lparr>state = st2, sent = [], raised = Some e\<rparr>
                        | Inr msg \<Rightarrow>
                            \<lparr>state = st2, sent = [TitleUpdated msg new_id], raised = None\<rparr>))))"

subsection \<open>Scraper integration\<close>

text \<open>Line 309: the identifier under which a candidate is stored.  A key of a
  dictionary must be hashable.\<close>

definition candidate_id :: "pylib \<Rightarrow> clock \<Rightarrow> dict \<Rightarrow> pyval res" where
  "candidate_id lib clk candidate =
     (if truthy (dict_get1 candidate ''id'')
      then (case dict_get1 candidate ''id'' of
              PList xs \<Rightarrow> Inl TypeError
            | PDict kvs \<Rightarrow> Inl TypeError
            | v \<Rightarrow> Inr v)
      else (case dict_get candidate ''title'' (PStr ''untitled'') of
              PStr title \<Rightarrow> Inr (PStr (make_article_id lib clk title))
            | _ \<Rightarrow> Inl AttributeError))"

text \<open>The loop of \<^verbatim>\<open>run_scrape\<close> (lines 308-321): the candidate is stored first and
  formatted second.\<close>

fun present :: "pylib \<Rightarrow> clock \<Rightarrow> dict list \<Rightarrow> bot_state \<times> notice list \<Rightarrow> outcome" where
  "present lib clk [] (st, out) = \<lparr>state = st, sent = out, raised = None\<rparr>"
| "present lib clk (candidate # rest) (st, out) =
     (case candidate_id lib clk candidate of
        Inl e \<Rightarrow> \<lparr>state = st, sent = out, raised = Some e\<rparr>
      | Inr article_id \<Rightarrow>
          (let candidate' = dict_set candidate ''id'' article_id;
               st' = st\<lparr>pending := AList.update article_id candidate' (pending st)\<rparr>
           in (case format_candidate lib candidate' of
                 Inl e \<Rightarrow> \<lparr>state = st', sent = out, raised = Some e\<rparr>
               | Inr msg \<Rightarrow> present lib clk rest (st', out @ [Candidate msg article_id]))))"

text \<open>\<^verbatim>\<open>run_scrape\<close> (lines 289-331): \<open>candidates\<close> is what \<^verbatim>\<open>get_candidates\<close>
  returned, or the exception it raised.  Any exception ends the run with an error
  message to the reviewer.\<close>

definition run_scrape :: "pylib \<Rightarrow> clock \<Rightarrow> bot_state \<Rightarrow> dict list res \<Rightarrow> outcome" where
  "run_scrape lib clk st candidates =
     (case candidates of
        Inl e \<Rightarrow> \<lparr>state = st, sent = [ScrapeError e], raised = None\<rparr>
      | Inr cs \<Rightarrow>
          if cs = [] then \<lparr>state = st, sent = [ScrapeEmpty], raised = None\<rparr>
          else
            (let out = present lib clk cs (st, [ScrapeFound (length cs)])
             in (case raised out of
                   None \<Rightarrow> out
                 | Some e \<Rightarrow>
                     \<lparr>state = state out, sent = sent out @ [ScrapeError e], raised = None\<rparr>)))"

section \<open>publish_remote.py: the publisher\<close>

text \<open>The configuration read from the environment, one HTTP response of the content
  API (\<^verbatim>\<open>resp.json()\<close> may raise), and the two requests the publisher makes:
  \<^verbatim>\<open>requests.get(url, params={"ref": branch})\<close> and \<^verbatim>\<open>requests.put(url, json=payload)\<close>,
  each of which may raise.\<close>

record config =
  github_token :: string
  github_repo :: string
  github_branch :: string

record response =
  resp_status :: nat
  resp_json :: "pyval res"
  resp_text :: string

record github =
  gh_get :: "string \<Rightarrow> string \<Rightarrow> response res"
  gh_put :: "string \<Rightarrow> dict \<Rightarrow> response res"

definition GITHUB_API :: string where
  "GITHUB_API = ''https://api.github.com''"

definition contents_url :: "config \<Rightarrow> string \<Rightarrow> string" where
  "contents_url cfg file_path =
     GITHUB_API @ ''/repos/'' @ github_repo cfg @ ''/contents/'' @ file_path"

function show_nat :: "nat \<Rightarrow> string" where
  "show_nat n = (if n < 10 then [digit n] else show_nat (n div 10) @ [digit n])"
  by pat_completeness auto
termination
  by (relation "measure id") auto

subsection \<open>The document\<close>

text \<open>\<^verbatim>\<open>x.replace(chr(34), chr(92)+chr(34))\<close>: a backslash before every double quote;
  the value must be a \<^verbatim>\<open>str\<close>.\<close>

definition escape_quotes :: "pyval \<Rightarrow> string res" where
  "escape_quotes x =
     (case x of
        PStr s \<Rightarrow> Inr (concat (map (\<lambda>c. if c = CHR 0x22 then [CHR 0x5C, CHR 0x22] else [c]) s))
      | _ \<Rightarrow> Inl AttributeError)"

text \<open>\<^verbatim>\<open>for t in x\<close>: lists, strings and dictionaries (their keys) can be walked.\<close>

definition iterate :: "pylib \<Rightarrow> pyval \<Rightarrow> pyval list res" where
  "iterate lib x =
     (case x of
        PList xs \<Rightarrow> Inr xs
      | PStr s \<Rightarrow> Inr (map PStr (py_chars lib s))
      | PDict d \<Rightarrow> Inr (map (\<lambda>kv. PStr (fst kv)) d)
      | _ \<Rightarrow> Inl TypeError)"

definition DQ :: string where
  "DQ = [CHR 0x22]"

text \<open>The \<^verbatim>\<open>geo\<close> block of the front matter (lines 69-84).\<close>

definition geo_lines :: "pylib \<Rightarrow> pyval \<Rightarrow> string list res" where
  "geo_lines lib geo =
     (let fallback = [''geo:'', ''  name: '' @ DQ @ ''Global'' @ DQ, ''  lat: 0'', ''  lon: 0'',
                      ''  countryCode: '' @ DQ @ ''XX'' @ DQ]
      in if \<not> truthy geo then Inr fallback
         else rbind (attr_get geo ''lat'' PNone) (\<lambda>lat0.
           if lat0 = PNone then Inr fallback
           else rbind (attr_get geo ''name'' (PStr ''Global'')) (\<lambda>name.
                rbind (subscript geo ''lat'') (\<lambda>lat.
                rbind (subscript geo ''lon'') (\<lambda>lon.
                rbind (attr_get geo ''countryCode'' (PStr ''XX'')) (\<lambda>cc.
                  Inr [''geo:'',
                       ''  name: '' @ DQ @ py_str lib name @ DQ,
                       ''  lat: '' @ py_str lib lat,
                       ''  lon: '' @ py_str lib lon,
                       ''  countryCode: '' @ DQ @ py_str lib cc @ DQ]))))))"

text \<open>\<^verbatim>\<open>generate_mdx\<close> (lines 46-95).\<close>

definition generate_mdx :: "pylib \<Rightarrow> dict \<Rightarrow> string res" where
  "generate_mdx lib data =
     (let geo = (if truthy (dict_get1 data ''geo'') then dict_get1 data ''geo'' else PDict []);
          source = dict_get data ''source'' (PDict []);
          image = dict_get data ''image'' (PDict []);
          tags = dict_get data ''tags'' (PList [])
      in
      rbind (dict_item data ''id'') (\<lambda>ident.
      rbind (rbind (dict_item data ''title'') escape_quotes) (\<lambda>title.
      rbind (dict_item data ''category'') (\<lambda>category.
      rbind (dict_item data ''date'') (\<lambda>date.
      rbind (rbind (dict_item data ''excerpt'') escape_quotes) (\<lambda>excerpt.
      rbind (attr_get source ''name'' (PStr '''')) (\<lambda>source_name.
      rbind (attr_get source ''url'' (PStr '''')) (\<lambda>source_url.
      rbind (attr_get image ''url'' (PStr ''/images/articles/placeholder.jpg'')) (\<lambda>image_url.
      rbind (rbind (attr_get image ''alt'' (PStr ''Article image'')) escape_quotes) (\<lambda>image_alt.
      rbind (iterate lib tags) (\<lambda>ts.
      rbind (geo_lines lib geo) (\<lambda>geo_block.
      rbind (case dict_get data ''content'' (PStr '''') of
               PStr s \<Rightarrow> Inr (strip lib s) | _ \<Rightarrow> Inl AttributeError) (\<lambda>content.
        Inr (join NL
          ([''---'',
            ''id: '' @ DQ @ py_str lib ident @ DQ,
            ''title: '' @ DQ @ title @ DQ,
            ''category: '' @ DQ @ py_str lib category @ DQ,
            ''date: '' @ DQ @ py_str lib date @ DQ,
            ''excerpt: '' @ DQ @ excerpt @ DQ,
            ''source:'',
            ''  name: '' @ DQ @ py_str lib source_name @ DQ,
            ''  url: '' @ DQ @ py_str lib source_url @ DQ,
            ''image:'',
            ''  url: '' @ DQ @ py_str lib image_url @ DQ,
            ''  alt: '' @ DQ @ image_alt @ DQ,
            ''tags: ['' @ join '', '' (map (\<lambda>t. DQ @ py_str lib t @ DQ) ts) @ '']'']
           @ geo_block
           @ [''featured: '' @ py_lower lib (py_str lib (dict_get data ''featured'' (PBool False))),
              ''approved: true'',
              ''---'',
              '''',
              content,
              ''''])))))))))))))))"

subsection \<open>Normalising the article\<close>

text \<open>Lines 118-122: the category of the path, and the article with its category
  overwritten when it was not valid.\<close>

definition validate_category :: "dict \<Rightarrow> pyval \<times> dict" where
  "validate_category article =
     (let category = dict_get article ''category'' (PStr ''technology'')
      in if category \<notin> set (map PStr VALID_CATEGORIES)
         then (PStr ''technology'', dict_set article ''category'' (PStr ''technology''))
         else (category, article))"

text \<open>\<^verbatim>\<open>s.encode("ascii", "ignore").decode("ascii")\<close> drops every byte that is not
  ASCII; the classes \<^verbatim>\<open>[a-z0-9]\<close> and \<^verbatim>\<open>[a-z0-9-]\<close> of the two patterns.\<close>

definition ascii_ignore :: "string \<Rightarrow> string" where
  "ascii_ignore s = filter (\<lambda>c. (of_char c :: nat) < 128) s"

definition lower_alnum :: "char \<Rightarrow> bool" where
  "lower_alnum c = (c \<in> set ''abcdefghijklmnopqrstuvwxyz0123456789'')"

definition id_char :: "char \<Rightarrow> bool" where
  "id_char c = (lower_alnum c \<or> c = CHR ''-'')"

text \<open>Lines 127-132: the slug of a title.  After the ASCII filter a character is one
  byte, so the slice \<^verbatim>\<open>[:60]\<close> is \<^const>\<open>take\<close>.\<close>

definition title_slug :: "pylib \<Rightarrow> string \<Rightarrow> string" where
  "title_slug lib lowered =
     (let slug1 = py_nfkd lib lowered;
          slug2 = ascii_ignore slug1;
          slug3 = sub_runs (\<lambda>c. \<not> lower_alnum c) slug2
      in rstrip_with is_hyphen (take 60 (strip_with is_hyphen slug3)))"

text \<open>Lines 136-140: an identifier that is already there.\<close>

definition sanitize_id :: "pylib \<Rightarrow> string \<Rightarrow> string" where
  "sanitize_id lib old_id =
     (let s1 = py_nfkd lib old_id;
          s2 = ascii_ignore s1;
          s3 = sub_runs (\<lambda>c. \<not> id_char c) (py_lower lib s2)
      in rstrip_with is_hyphen (strip_with is_hyphen s3))"

text \<open>Lines 124-142.  \<^verbatim>\<open>unicodedata.normalize\<close> takes a \<^verbatim>\<open>str\<close> only.\<close>

definition ensure_id :: "pylib \<Rightarrow> clock \<Rightarrow> dict \<Rightarrow> dict res" where
  "ensure_id lib clk article =
     (if \<not> truthy (dict_get1 article ''id'')
      then rbind (str_lower lib (dict_get article ''title'' (PStr ''untitled''))) (\<lambda>lowered.
             Inr (dict_set article ''id'' (PStr (date_str clk @ ''-'' @ title_slug lib lowered))))
      else (case dict_get1 article ''id'' of
              PStr old_id \<Rightarrow>
                Inr (if sanitize_id lib old_id \<noteq> old_id
                     then dict_set article ''id'' (PStr (sanitize_id lib old_id))
                     else article)
            | _ \<Rightarrow> Inl TypeError))"

text \<open>Lines 144-146.\<close>

definition ensure_date :: "clock \<Rightarrow> dict \<Rightarrow> dict" where
  "ensure_date clk article =
     (if \<not> truthy (dict_get1 article ''date'')
      then dict_set article ''date'' (PStr (now_iso clk))
      else article)"

subsection \<open>The requests\<close>

text \<open>\<^verbatim>\<open>base64.b64encode(s.encode("utf-8")).decode("ascii")\<close> on the bytes of the
  document.\<close>

definition b64_digit :: "nat \<Rightarrow> char" where
  "b64_digit n =
     ''ABCDEFGHIJKLMNOPQRSTUVWXYZabcdefghijklmnopqrstuvwxyz0123456789+/'' ! (n mod 64)"

fun b64_groups :: "nat list \<Rightarrow> string" where
  "b64_groups [] = []"
| "b64_groups [a] = [b64_digit (a div 4), b64_digit ((a mod 4) * 16), CHR ''='', CHR ''='']"
| "b64_groups [a, b] =
     [b64_digit (a div 4), b64_digit ((a mod 4) * 16 + b div 16), b64_digit ((b mod 16) * 4),
      CHR ''='']"
| "b64_groups (a # b # c # rest) =
     [b64_digit (a div 4), b64_digit ((a mod 4) * 16 + b div 16),
      b64_digit ((b mod 16) * 4 + c div 64), b64_digit (c mod 64)] @ b64_groups rest"

definition b64encode :: "string \<Rightarrow> string" where
  "b64encode s = b64_groups (map of_char s)"

text \<open>\<^verbatim>\<open>get_existing_file_sha\<close> (lines 98-104).\<close>

definition get_existing_file_sha :: "config \<Rightarrow> github \<Rightarrow> string \<Rightarrow> pyval res" where
  "get_existing_file_sha cfg gh file_path =
     rbind (gh_get gh (contents_url cfg file_path) (github_branch cfg)) (\<lambda>resp.
       if resp_status resp = 200
       then rbind (resp_json resp) (\<lambda>j. attr_get j ''sha'' PNone)
       else Inr PNone)"

text \<open>Line 150.\<close>

definition file_path_of :: "pylib \<Rightarrow> pyval \<Rightarrow> dict \<Rightarrow> string res" where
  "file_path_of lib category article =
     rbind (dict_item article ''id'') (\<lambda>ident.
       Inr (''content/'' @ py_str lib category @ ''/'' @ py_str lib ident @ ''.mdx''))"

text \<open>Lines 157-165: the body of the create-or-update request.\<close>

definition put_payload :: "config \<Rightarrow> pylib \<Rightarrow> dict \<Rightarrow> string \<Rightarrow> pyval \<Rightarrow> dict res" where
  "put_payload cfg lib article mdx_content existing_sha =
     rbind (rbind (dict_item article ''title'') (slice_to lib 60)) (\<lambda>short.
       let payload = [(''message'', PStr (''Add article: '' @ py_str lib short)),
                      (''content'', PStr (b64encode mdx_content)),
                      (''branch'', PStr (github_branch cfg))]
       in Inr (if truthy existing_sha
               then dict_set (dict_set payload ''sha'' existing_sha)
                      ''message'' (PStr (''Update article: '' @ py_str lib short))
               else payload))"

text \<open>Lines 169-184: the result returned for the response of the request.\<close>

definition publish_result :: "pylib \<Rightarrow> dict \<Rightarrow> string \<Rightarrow> pyval \<Rightarrow> response \<Rightarrow> dict res" where
  "publish_result lib article file_path existing_sha resp =
     (if resp_status resp = 200 \<or> resp_status resp = 201
      then rbind (resp_json resp) (\<lambda>j.
           rbind (attr_get j ''content'' (PDict [])) (\<lambda>c.
           rbind (attr_get c ''html_url'' (PStr '''')) (\<lambda>file_url.
           rbind (dict_item article ''title'') (\<lambda>title.
             Inr [(''success'', PBool True),
                  (''message'', PStr ((if truthy existing_sha then ''Updated'' else ''Published'')
                                      @ '': '' @ py_str lib title)),
                  (''url'', file_url),
                  (''file_path'', PStr file_path)]))))
      else rbind (resp_json resp) (\<lambda>j.
           rbind (attr_get j ''message'' (PStr (py_take lib 200 (resp_text resp)))) (\<lambda>error.
             Inr [(''success'', PBool False),
                  (''message'', PStr (''GitHub API error ('' @ show_nat (resp_status resp)
                                      @ ''): '' @ py_str lib error)),
                  (''url'', PStr '''')])))"

definition failure :: "string \<Rightarrow> dict" where
  "failure msg = [(''success'', PBool False), (''message'', PStr msg), (''url'', PStr '''')]"

text \<open>
  What a call of \<^verbatim>\<open>publish_to_github\<close> leaves behind: the value it returns or the
  exception it raises, the dictionary it was given as it is after the call (the function
  assigns to it), the path it computed, and the body of the create-or-update request if
  it sent one.
\<close>

record publication =
  pub_result :: "dict res"
  pub_article :: dict
  pub_path :: "string option"
  pub_request :: "dict option"

text \<open>Lines 148-184, once the article is normalised.\<close>

definition upload :: "config \<Rightarrow> pylib \<Rightarrow> github \<Rightarrow> pyval \<Rightarrow> dict \<Rightarrow> publication" where
  "upload cfg lib gh category article =
     (case rbind (generate_mdx lib article) (\<lambda>mdx.
             rbind (file_path_of lib category article) (\<lambda>p. Inr (mdx, p))) of
        Inl e \<Rightarrow> \<lparr>pub_result = Inl e, pub_article = article, pub_path = None, pub_request = None\<rparr>
      | Inr (mdx_content, file_path) \<Rightarrow>
          (case rbind (get_existing_file_sha cfg gh file_path) (\<lambda>sha.
                  rbind (put_payload cfg lib article mdx_content sha) (\<lambda>payload.
                    Inr (sha, payload))) of
             Inl e \<Rightarrow> \<lparr>pub_result = Inl e, pub_article = article, pub_path = Some file_path,
                       pub_request = None\<rparr>
           | Inr (existing_sha, payload) \<Rightarrow>
               \<lparr>pub_result = rbind (gh_put gh (contents_url cfg file_path) payload)
                               (publish_result lib article file_path existing_sha),
                pub_article = article, pub_path = Some file_path,
                pub_request = Some payload\<rparr>))"

text \<open>\<^verbatim>\<open>publish_to_github\<close> (lines 107-184).\<close>

definition publish_to_github ::
  "config \<Rightarrow> pylib \<Rightarrow> clock \<Rightarrow> github \<Rightarrow> dict \<Rightarrow> publication" where
  "publish_to_github cfg lib clk gh article =
     (if github_token cfg = []
      then \<lparr>pub_result = Inr (failure ''GITHUB_TOKEN not set''), pub_article = article,
            pub_path = None, pub_request = None\<rparr>
      else if github_repo cfg = []
      then \<lparr>pub_result = Inr (failure ''GITHUB_REPO not set''), pub_article = article,
            pub_path = None, pub_request = None\<rparr>
      else
        (case validate_category article of
           (category, article1) \<Rightarrow>
             (case ensure_id lib clk article1 of
                Inl e \<Rightarrow> \<lparr>pub_result = Inl e, pub_article = article1, pub_path = None,
                          pub_request = None\<rparr>
              | Inr article2 \<Rightarrow> upload cfg lib gh category (ensure_date clk article2))))"

text \<open>The publish call as \<^verbatim>\<open>handle_callback\<close> makes it (line 224): the returned
  dictionary, or the exception.\<close>

definition publish_call :: "config \<Rightarrow> pylib \<Rightarrow> clock \<Rightarrow> github \<Rightarrow> dict \<Rightarrow> dict res" where
  "publish_call cfg lib clk gh payload = pub_result (publish_to_github cfg lib clk gh payload)"

section \<open>The library on ASCII text\<close>

text \<open>
  To run the definitions on concrete inputs, the library functions as they act on ASCII
  text without markup: case mapping of the 26 letters, the six ASCII whitespace
  characters, the ASCII word characters, NFKD as the identity, one character per byte.
  \<^verbatim>\<open>str()\<close> is given for \<^verbatim>\<open>None\<close>, booleans and integers, and \<^verbatim>\<open>float()\<close> for numbers
  and booleans; the examples below do not apply them to anything else.
\<close>

definition UPPERCASE :: string where
  "UPPERCASE = ''ABCDEFGHIJKLMNOPQRSTUVWXYZ''"

definition LOWERCASE :: string where
  "LOWERCASE = ''abcdefghijklmnopqrstuvwxyz''"

definition to_lower :: "char \<Rightarrow> char" where
  "to_lower c = (case map_of (zip UPPERCASE LOWERCASE) c of None \<Rightarrow> c | Some l \<Rightarrow> l)"

definition to_upper :: "char \<Rightarrow> char" where
  "to_upper c = (case map_of (zip LOWERCASE UPPERCASE) c of None \<Rightarrow> c | Some u \<Rightarrow> u)"

definition ascii_space :: "char \<Rightarrow> bool" where
  "ascii_space c = (c \<in> set [CHR '' '', CHR 0x09, CHR 0x0A, CHR 0x0B, CHR 0x0C, CHR 0x0D])"

definition ascii_word :: "char \<Rightarrow> bool" where
  "ascii_word c = (c \<in> set (LOWERCASE @ UPPERCASE @ ''0123456789_''))"

definition ascii_repr :: "pyval \<Rightarrow> string" where
  "ascii_repr x =
     (case x of
        PNone \<Rightarrow> ''None''
      | PBool b \<Rightarrow> (if b then ''True'' else ''False'')
      | PInt i \<Rightarrow> (if i < 0 then ''-'' @ show_nat (nat (- i)) else show_nat (nat i))
      | _ \<Rightarrow> [])"

definition ascii_float :: "pyval \<Rightarrow> pyval res" where
  "ascii_float x =
     (case x of
        PInt i \<Rightarrow> Inr (PFloat (of_int i))
      | PFloat r \<Rightarrow> Inr (PFloat r)
      | PBool b \<Rightarrow> Inr (PFloat (if b then 1 else 0))
      | PStr s \<Rightarrow> Inl ValueError
      | _ \<Rightarrow> Inl TypeError)"

definition ascii_lib :: pylib where
  "ascii_lib =
     \<lparr>py_lower = map to_lower,
      py_upper = map to_upper,
      py_isspace = ascii_space,
      py_isword = ascii_word,
      py_nfkd = (\<lambda>s. s),
      py_repr = ascii_repr,
      py_float = ascii_float,
      py_chars = map (\<lambda>c. [c]),
      py_html_text = strip_with ascii_space\<rparr>"

section \<open>Notions used in the statements, and example inputs\<close>

text \<open>The approval went through: the candidate is pending under \<open>article_id\<close>, the payload
  was built, the publish call returned, and its result reports success.\<close>

definition publish_succeeded :: "(dict \<Rightarrow> dict res) \<Rightarrow> clock \<Rightarrow> bot_state \<Rightarrow> string \<Rightarrow> bool" where
  "publish_succeeded publish clk st article_id =
     (case map_of (pending st) (PStr article_id) of
        None \<Rightarrow> False
      | Some article \<Rightarrow>
          article \<noteq> [] \<and> map_of article ''title'' \<noteq> None \<and>
          (case rbind (approve_payload clk article_id article) publish of
             Inl e \<Rightarrow> False
           | Inr result \<Rightarrow> (case map_of result ''success'' of None \<Rightarrow> False | Some ok \<Rightarrow> truthy ok)))"

text \<open>The title of the candidate pending under \<open>article_id\<close>.\<close>

definition pending_title :: "bot_state \<Rightarrow> string \<Rightarrow> pyval" where
  "pending_title st article_id =
     (case map_of (pending st) (PStr article_id) of
        None \<Rightarrow> PNone
      | Some article \<Rightarrow> dict_get1 article ''title'')"

text \<open>A candidate as the rewriter produces it, stored by \<^verbatim>\<open>run_scrape\<close>, with an open
  edit session of reviewer 7; a clock; a publish call that fails as the publisher does
  without a token, and one that succeeds.\<close>

definition example_candidate :: dict where
  "example_candidate =
     [(''source_name'', PStr ''Example Feed''),
      (''source_url'', PStr ''https://example.org/rss''),
      (''original_link'', PStr ''https://example.org/a''),
      (''published'', PStr ''2026-01-01T00:00:00+00:00''),
      (''category'', PStr ''ai''),
      (''title'', PStr ''Old title''),
      (''excerpt'', PStr ''An excerpt''),
      (''content'', PStr ''Body''),
      (''tags'', PList [PStr ''ai'', PStr ''chips'', PStr ''open-source'']),
      (''geo'', PDict [(''name'', PStr ''Zagreb, Croatia''), (''lat'', PFloat 45.815),
                       (''lon'', PFloat 15.9819), (''countryCode'', PStr ''HR'')]),
      (''id'', PStr ''2026-01-01-old-title'')]"

definition example_state :: bot_state where
  "example_state =
     \<lparr>pending = [(PStr ''2026-01-01-old-title'', example_candidate)],
      published = [],
      editing = [(7, ''2026-01-01-old-title'')]\<rparr>"

definition example_clock :: clock where
  "example_clock = \<lparr>now_year = 2026, now_month = 1, now_day = 2,
                     now_iso = ''2026-01-02T10:00:00+00:00''\<rparr>"

definition publish_fails :: "dict \<Rightarrow> dict res" where
  "publish_fails payload = Inr (failure ''GITHUB_TOKEN not set'')"

definition publish_works :: "dict \<Rightarrow> dict res" where
  "publish_works payload =
     Inr [(''success'', PBool True), (''message'', PStr ''Published: Old title''),
          (''url'', PStr ''https://example.org/doc''), (''file_path'', PStr ''content/ai/x.mdx'')]"

text \<open>The link of an emitted entry; the links that are not empty among the entries of a
  feed; and the links a run is offered: those of the feeds of every source that has a URL
  and whose feed was parsed.\<close>

definition link_of :: "dict \<Rightarrow> pyval" where
  "link_of entry = dict_get1 entry ''link''"

definition item_links :: "feed_item list \<Rightarrow> string set" where
  "item_links es = {l. l \<noteq> [] \<and> l \<in> (\<lambda>e. getattr (fi_link e) []) ` set es}"

fun offered :: "(dict \<times> feed_item list res) list \<Rightarrow> string set" where
  "offered [] = {}"
| "offered ((source, parsed) # rest) =
     (if \<not> truthy (dict_get source ''url'' (PStr '''')) then offered rest
      else case parsed of
             Inl exc \<Rightarrow> offered rest
           | Inr entries \<Rightarrow> item_links entries \<union> offered rest)"

text \<open>Four sources: two feeds that share a link, a source without a URL and a feed that
  fails to parse; one link is already in the seen file.\<close>

definition example_item :: "string \<Rightarrow> string \<Rightarrow> feed_item" where
  "example_item link title =
     \<lparr>fi_link = Some link, fi_title = Some title, fi_summary = None,
      fi_description = Some ''A summary'', fi_published = ''2026-01-01T00:00:00+00:00''\<rparr>"

definition example_sources :: "(dict \<times> feed_item list res) list" where
  "example_sources =
     [([(''name'', PStr ''Feed A''), (''url'', PStr ''https://a.example/rss'')],
       Inr [example_item ''https://x.example/1'' ''One'', example_item ''https://x.example/2'' ''Two'']),
      ([(''name'', PStr ''No URL'')], Inr [example_item ''https://x.example/9'' ''Nine'']),
      ([(''name'', PStr ''Broken''), (''url'', PStr ''https://c.example/rss'')], Inl RequestError),
      ([(''name'', PStr ''Feed B''), (''url'', PStr ''https://b.example/rss'')],
       Inr [example_item ''https://x.example/2'' ''Two again'',
            example_item ''https://x.example/3'' ''Three''])]"

definition example_seen_file :: "string list option" where
  "example_seen_file = Some [''https://x.example/1'']"

text \<open>\<^verbatim>\<open>key.lower() in geo_name.lower()\<close>; the test of the first loop of the resolver on
  an entry of the known-location table, and the test of the second loop on an entry of
  the company table.\<close>

definition contains_ci :: "pylib \<Rightarrow> string \<Rightarrow> string \<Rightarrow> bool" where
  "contains_ci lib key geo_name = sublist (py_lower lib key) (py_lower lib geo_name)"

definition known_hit :: "pylib \<Rightarrow> string \<Rightarrow> string \<times> pyval \<Rightarrow> bool" where
  "known_hit lib geo_name kv = contains_ci lib (fst kv) geo_name"

definition company_hit :: "pylib \<Rightarrow> string \<Rightarrow> dict \<Rightarrow> string \<times> pyval \<Rightarrow> bool" where
  "company_hit lib geo_name known kv =
     (contains_ci lib (fst kv) geo_name \<and> snd kv \<in> PStr ` fst ` set known)"

text \<open>A gazetteer in which one key is contained in another, and guesses for each case of
  the resolver.\<close>

definition example_known :: dict where
  "example_known =
     [(''India'', PDict [(''name'', PStr ''India''), (''lat'', PFloat 20.5937),
                         (''lon'', PFloat 78.9629), (''countryCode'', PStr ''IN'')]),
      (''Indiana'', PDict [(''name'', PStr ''Indiana, USA''), (''lat'', PFloat 40.2672),
                           (''lon'', PFloat (-86.1349)), (''countryCode'', PStr ''US'')]),
      (''San Francisco'', PDict [(''name'', PStr ''San Francisco, USA''), (''lat'', PFloat 37.7749),
                                 (''lon'', PFloat (-122.4194)), (''countryCode'', PStr ''US'')])]"

definition example_hq :: dict where
  "example_hq = [(''OpenAI'', PStr ''San Francisco''), (''Acme'', PStr ''Nowhere'')]"

definition example_geo_map :: dict where
  "example_geo_map =
     [(''known_locations'', PDict example_known), (''company_hq'', PDict example_hq)]"

definition example_guess :: dict where
  "example_guess =
     [(''name'', PStr ''Indianapolis, Indiana''), (''lat'', PFloat 39.7684),
      (''lon'', PFloat (-86.1581)), (''countryCode'', PStr ''US'')]"

definition india_record :: pyval where
  "india_record = PDict [(''name'', PStr ''India''), (''lat'', PFloat 20.5937),
                         (''lon'', PFloat 78.9629), (''countryCode'', PStr ''IN'')]"

definition indiana_record :: pyval where
  "indiana_record = PDict [(''name'', PStr ''Indiana, USA''), (''lat'', PFloat 40.2672),
                           (''lon'', PFloat (-86.1349)), (''countryCode'', PStr ''US'')]"

definition sf_record :: pyval where
  "sf_record = PDict [(''name'', PStr ''San Francisco, USA''), (''lat'', PFloat 37.7749),
                      (''lon'', PFloat (-122.4194)), (''countryCode'', PStr ''US'')]"

definition company_guess :: dict where
  "company_guess = [(''name'', PStr ''OpenAI headquarters'')]"

definition unknown_guess :: dict where
  "unknown_guess = [(''name'', PStr ''Atlantis''), (''lat'', PInt 1), (''lon'', PFloat 2.5)]"

definition partial_guess :: dict where
  "partial_guess = [(''name'', PStr ''Atlantis''), (''lat'', PInt 1)]"

text \<open>A feed entry, the response of the scenario of the specification (an unknown
  category and eight uppercase tags) with the candidate made from it, and a response with
  a single tag with its candidate.\<close>

definition example_entry :: dict where
  "example_entry =
     [(''source_name'', PStr ''Feed A''),
      (''source_url'', PStr ''https://a.example/rss''),
      (''title'', PStr ''Two''),
      (''link'', PStr ''https://x.example/2''),
      (''published'', PStr ''2026-01-01T00:00:00+00:00''),
      (''summary'', PStr ''A summary'')]"

definition bogus_response :: dict where
  "bogus_response =
     [(''category'', PStr ''bogus''),
      (''tags'', PList [PStr ''A'', PStr ''B'', PStr ''C'', PStr ''D'', PStr ''E'', PStr ''F'',
                        PStr ''G'', PStr ''H''])]"

definition bogus_candidate :: dict where
  "bogus_candidate =
     [(''source_name'', PStr ''Feed A''),
      (''source_url'', PStr ''https://a.example/rss''),
      (''original_link'', PStr ''https://x.example/2''),
      (''published'', PStr ''2026-01-01T00:00:00+00:00''),
      (''category'', PStr ''technology''),
      (''title'', PStr ''Two''),
      (''excerpt'', PStr ''''),
      (''content'', PStr ''''),
      (''tags'', PList [PStr ''a'', PStr ''b'', PStr ''c'', PStr ''d'', PStr ''e'', PStr ''f'',
                        PStr ''g'']),
      (''geo'', PNone)]"

definition one_tag_response :: dict where
  "one_tag_response =
     [(''category'', PStr ''AI''), (''title'', PStr ''Chips''), (''excerpt'', PStr ''Short''),
      (''content'', PStr ''Body''), (''tags'', PList [PStr '' Chips '']), (''geo'', PNone)]"

definition one_tag_candidate :: dict where
  "one_tag_candidate =
     [(''source_name'', PStr ''Feed A''),
      (''source_url'', PStr ''https://a.example/rss''),
      (''original_link'', PStr ''https://x.example/2''),
      (''published'', PStr ''2026-01-01T00:00:00+00:00''),
      (''category'', PStr ''ai''),
      (''title'', PStr ''Chips''),
      (''excerpt'', PStr ''Short''),
      (''content'', PStr ''Body''),
      (''tags'', PList [PStr ''chips'']),
      (''geo'', PNone)]"

text \<open>What line 315 does to one tag.\<close>

definition clean_tag :: "pylib \<Rightarrow> pyval \<Rightarrow> pyval" where
  "clean_tag lib t = PStr (strip lib (py_lower lib (py_str lib t)))"

text \<open>The stores at start-up, and the single-tag candidate as \<^verbatim>\<open>run_scrape\<close> stores it.\<close>

definition empty_state :: bot_state where
  "empty_state = \<lparr>pending = [], published = [], editing = []\<rparr>"

definition stored_candidate :: dict where
  "stored_candidate = one_tag_candidate @ [(''id'', PStr ''2026-01-02-chips'')]"

text \<open>A clock on the day the example candidate was stored, and that candidate after its
  title was edited to ``New title'' on the next day.\<close>

definition same_day_clock :: clock where
  "same_day_clock = \<lparr>now_year = 2026, now_month = 1, now_day = 1,
                      now_iso = ''2026-01-01T09:00:00+00:00''\<rparr>"

definition edited_candidate :: dict where
  "edited_candidate =
     [(''source_name'', PStr ''Example Feed''),
      (''source_url'', PStr ''https://example.org/rss''),
      (''original_link'', PStr ''https://example.org/a''),
      (''published'', PStr ''2026-01-01T00:00:00+00:00''),
      (''category'', PStr ''ai''),
      (''title'', PStr ''New title''),
      (''excerpt'', PStr ''An excerpt''),
      (''content'', PStr ''Body''),
      (''tags'', PList [PStr ''ai'', PStr ''chips'', PStr ''open-source'']),
      (''geo'', PDict [(''name'', PStr ''Zagreb, Croatia''), (''lat'', PFloat 45.815),
                       (''lon'', PFloat 15.9819), (''countryCode'', PStr ''HR'')]),
      (''id'', PStr ''2026-01-02-new-title'')]"

text \<open>A configuration; a content API in which no document exists yet, and one in which
  every path holds a document; an article with an unknown category and neither
  identifier nor date, and an article with all three.\<close>

definition example_config :: config where
  "example_config = \<lparr>github_token = ''token'', github_repo = ''owner/site'',
                      github_branch = ''main''\<rparr>"

definition created_response :: response where
  "created_response =
     \<lparr>resp_status = 201,
      resp_json = Inr (PDict [(''content'',
                    PDict [(''html_url'', PStr ''https://github.example/owner/site/doc'')])]),
      resp_text = ''''\<rparr>"

definition github_missing :: github where
  "github_missing =
     \<lparr>gh_get = (\<lambda>url ref. Inr \<lparr>resp_status = 404,
                                  resp_json = Inr (PDict [(''message'', PStr ''Not Found'')]),
                                  resp_text = ''''\<rparr>),
      gh_put = (\<lambda>url payload. Inr created_response)\<rparr>"


definition bogus_article :: dict where
  "bogus_article =
     [(''title'', PStr ''Hello, World -- again''),
      (''category'', PStr ''bogus''),
      (''excerpt'', PStr ''An excerpt''),
      (''content'', PStr ''Body'')]"

definition example_article :: dict where
  "example_article =
     [(''id'', PStr ''2026-01-01-Old Title!''),
      (''title'', PStr ''Old title''),
      (''category'', PStr ''ai''),
      (''date'', PStr ''2026-01-01T00:00:00+00:00''),
      (''excerpt'', PStr ''An excerpt''),
      (''source'', PDict [(''name'', PStr ''Example Feed''), (''url'', PStr ''https://example.org/a'')]),
      (''tags'', PList [PStr ''ai'', PStr ''chips'']),
      (''geo'', PNone),
      (''featured'', PBool False),
      (''content'', PStr ''Body'')]"

text \<open>The first of these articles after the publisher ran on it.\<close>

definition normalised_bogus_article :: dict where
  "normalised_bogus_article =
     [(''title'', PStr ''Hello, World -- again''),
      (''category'', PStr ''technology''),
      (''excerpt'', PStr ''An excerpt''),
      (''content'', PStr ''Body''),
      (''id'', PStr ''2026-01-02-hello-world-again''),
      (''date'', PStr ''2026-01-02T10:00:00+00:00'')]"

text \<open>A response whose category is \<^verbatim>\<open>null\<close>.\<close>

definition null_category_response :: dict where
  "null_category_response =
     [(''category'', PNone), (''title'', PStr ''Chips''), (''excerpt'', PStr ''Short''),
      (''content'', PStr ''Body''), (''tags'', PList [PStr ''chips'', PStr ''ai'', PStr ''fabs'']),
      (''geo'', PNone)]"

text \<open>An article whose identifier has capitals, spaces and hyphens in a row.\<close>

definition hyphen_article :: dict where
  "hyphen_article =
     [(''id'', PStr ''2026-01-01-Big -- News''),
      (''title'', PStr ''Big -- News''),
      (''category'', PStr ''ai''),
      (''excerpt'', PStr ''An excerpt''),
      (''content'', PStr ''Body'')]"

section \<open>Approval and the publish outcome\<close>

lemma split_once_approve:
  "split_once (''approve_'' @ article_id) = [''approve'', article_id]"
  by (simp add: split_once_def)

text \<open>
  Claim C1.  When the reviewer approves a candidate, the candidate is removed from the
  pending store and its title is appended to the published list exactly when the publish
  call reports success; in every other case (the publish call fails or raises, or the
  candidate is not available) the store and the published list are left as they were.
\<close>

theorem approve_removes_iff_success:
  "state (handle_callback publish clk st user_id (''approve_'' @ article_id)) =
     (if publish_succeeded publish clk st article_id
      then st\<lparr>published := published st @ [pending_title st article_id],
              pending := AList.delete (PStr article_id) (pending st)\<rparr>
      else st)"
  unfolding handle_callback_def split_once_approve publish_succeeded_def approve_def
    pending_title_def
  by (auto simp: dict_item_def dict_get1_def dict_get_def split: option.splits sum.splits)

theorem approve_removes_iff_success_witness:
  "state (handle_callback publish_fails example_clock example_state 7
            ''approve_2026-01-01-old-title'') = example_state
   \<and> state (handle_callback publish_works example_clock example_state 7
            ''approve_2026-01-01-old-title'')
       = \<lparr>pending = [], published = [PStr ''Old title''],
          editing = [(7, ''2026-01-01-old-title'')]\<rparr>"
  using approve_removes_iff_success [of publish_fails example_clock example_state 7
          "''2026-01-01-old-title''"]
        approve_removes_iff_success [of publish_works example_clock example_state 7
          "''2026-01-01-old-title''"]
  by (simp add: publish_succeeded_def pending_title_def example_state_def example_candidate_def
        approve_payload_def rbind_def attr_get_def dict_get_def dict_get1_def
        publish_fails_def publish_works_def failure_def)

section \<open>The feed ingester and the seen set\<close>

lemma link_of_feed_entry: "link_of (feed_entry lib name url e link) = PStr link"
  by (simp add: link_of_def feed_entry_def dict_get1_def dict_get_def Let_def)

lemma item_links_Cons:
  "item_links (e # es) =
     (if getattr (fi_link e) [] = [] then item_links es
      else insert (getattr (fi_link e) []) (item_links es))"
  by (auto simp: item_links_def)

lemma scrape_entries_seen:
  "snd (scrape_entries lib name url es (new_entries, seen)) = seen \<union> item_links es"
proof (induction es arbitrary: new_entries seen)
  case Nil
  then show ?case by (simp add: item_links_def)
next
  case (Cons e es)
  then show ?case by (auto simp: Let_def item_links_Cons)
qed

lemma scrape_entries_new:
  "\<exists>added. fst (scrape_entries lib name url es (new_entries, seen)) = new_entries @ added
     \<and> distinct (map link_of added)
     \<and> set (map link_of added) = PStr ` (item_links es - seen)"
proof (induction es arbitrary: new_entries seen)
  case Nil
  then show ?case by (simp add: item_links_def)
next
  case (Cons e es)
  let ?l = "getattr (fi_link e) []"
  show ?case
  proof (cases "?l = [] \<or> ?l \<in> seen")
    case True
    from Cons.IH [of new_entries seen] obtain added where
      "fst (scrape_entries lib name url es (new_entries, seen)) = new_entries @ added"
      "distinct (map link_of added)"
      "set (map link_of added) = PStr ` (item_links es - seen)" by blast
    with True show ?thesis
      by (intro exI [of _ added]) (auto simp: Let_def item_links_Cons)
  next
    case False
    let ?x = "feed_entry lib name url e ?l"
    from Cons.IH [of "new_entries @ [?x]" "insert ?l seen"] obtain added where a:
      "fst (scrape_entries lib name url es (new_entries @ [?x], insert ?l seen))
         = (new_entries @ [?x]) @ added"
      "distinct (map link_of added)"
      "set (map link_of added) = PStr ` (item_links es - insert ?l seen)" by blast
    have "PStr ?l \<notin> set (map link_of added)"
      using a(3) by auto
    with False a show ?thesis
      by (intro exI [of _ "?x # added"])
         (auto simp: Let_def item_links_Cons link_of_feed_entry)
  qed
qed

lemma scrape_sources_seen:
  "snd (scrape_sources lib sources (new_entries, seen)) = seen \<union> offered sources"
proof (induction sources arbitrary: new_entries seen)
  case Nil
  then show ?case by simp
next
  case (Cons sp sources)
  obtain source parsed where sp: "sp = (source, parsed)" by (cases sp)
  show ?case
  proof (cases "truthy (dict_get source ''url'' (PStr ''''))")
    case False
    then show ?thesis using Cons.IH sp by (simp add: Let_def)
  next
    case True
    show ?thesis
    proof (cases parsed)
      case (Inl exc)
      then show ?thesis using Cons.IH sp True by (simp add: Let_def)
    next
      case (Inr entries)
      let ?name = "dict_get source ''name'' (PStr ''Unknown'')"
      let ?url = "dict_get source ''url'' (PStr '''')"
      obtain n s where r: "scrape_entries lib ?name ?url entries (new_entries, seen) = (n, s)"
        by (cases "scrape_entries lib ?name ?url entries (new_entries, seen)")
      have "s = seen \<union> item_links entries"
        using scrape_entries_seen [of lib ?name ?url entries new_entries seen] r by simp
      then show ?thesis using Cons.IH [of n s] sp True Inr r by (auto simp: Let_def)
    qed
  qed
qed

lemma scrape_sources_new:
  "\<exists>added. fst (scrape_sources lib sources (new_entries, seen)) = new_entries @ added
     \<and> distinct (map link_of added)
     \<and> set (map link_of added) = PStr ` (offered sources - seen)"
proof (induction sources arbitrary: new_entries seen)
  case Nil
  then show ?case by simp
next
  case (Cons sp sources)
  obtain source parsed where sp: "sp = (source, parsed)" by (cases sp)
  show ?case
  proof (cases "truthy (dict_get source ''url'' (PStr ''''))")
    case False
    then show ?thesis using Cons.IH [of new_entries seen] sp by (simp add: Let_def)
  next
    case True
    show ?thesis
    proof (cases parsed)
      case (Inl exc)
      then show ?thesis using Cons.IH [of new_entries seen] sp True by (simp add: Let_def)
    next
      case (Inr entries)
      let ?name = "dict_get source ''name'' (PStr ''Unknown'')"
      let ?url = "dict_get source ''url'' (PStr '''')"
      obtain n s where r: "scrape_entries lib ?name ?url entries (new_entries, seen) = (n, s)"
        by (cases "scrape_entries lib ?name ?url entries (new_entries, seen)")
      have s: "s = seen \<union> item_links entries"
        using scrape_entries_seen [of lib ?name ?url entries new_entries seen] r by simp
      from scrape_entries_new [of lib ?name ?url entries new_entries seen] r
      obtain a1 where a1: "n = new_entries @ a1" "distinct (map link_of a1)"
        "set (map link_of a1) = PStr ` (item_links entries - seen)" by auto
      from Cons.IH [of n s] obtain a2 where a2:
        "fst (scrape_sources lib sources (n, s)) = n @ a2" "distinct (map link_of a2)"
        "set (map link_of a2) = PStr ` (offered sources - s)" by blast
      have run: "scrape_sources lib (sp # sources) (new_entries, seen)
                   = scrape_sources lib sources (n, s)"
        using sp True Inr r by (simp add: Let_def)
      have disj: "set (map link_of a1) \<inter> set (map link_of a2) = {}"
        unfolding a1(3) a2(3) s by auto
      have un: "set (map link_of a1) \<union> set (map link_of a2)
                  = PStr ` (offered (sp # sources) - seen)"
        unfolding a1(3) a2(3) s using sp True Inr by auto
      show ?thesis
        apply (rule exI [of _ "a1 @ a2"])
        using run a1 a2 disj un by (simp add: image_Un)
    qed
  qed
qed

lemma finite_item_links: "finite (item_links es)"
  by (rule finite_subset [of _ "(\<lambda>e. getattr (fi_link e) []) ` set es"]) (auto simp: item_links_def)

lemma finite_offered: "finite (offered sources)"
  by (induction sources rule: offered.induct) (auto simp: finite_item_links split: sum.splits)

lemma finite_load_seen: "finite (load_seen file)"
  by (simp add: load_seen_def split: option.splits)

text \<open>
  Claim C2, amended.  One ingestion run emits every link at most once, and emits exactly
  the links it is offered that are not in the seen set loaded at the start of the run (so
  none that is already there, and a link offered by two sources once).  When the seen file
  is written at the end of the run, the set read back from it is the set loaded at the
  start together with the links offered; when the file cannot be opened it stays as it
  was; in both cases the set read back contains the set loaded at the start.  When the
  write fails after the file was opened, the file is left unreadable.
\<close>

theorem scrape_feeds_emits_each_new_link_once:
  assumes "scrape_feeds lib sources file outcome = (new_entries, file')"
  shows "distinct (map link_of new_entries)
     \<and> set (map link_of new_entries) = PStr ` (offered sources - load_seen file)
     \<and> (outcome = Written \<longrightarrow> load_seen file' = load_seen file \<union> offered sources)
     \<and> (outcome = OpenFailed \<longrightarrow> file' = file)
     \<and> (outcome \<noteq> WriteFailed \<longrightarrow> load_seen file \<subseteq> load_seen file')
     \<and> (outcome = WriteFailed \<longrightarrow> file' = None)"
proof -
  obtain n s where r: "scrape_sources lib sources ([], load_seen file) = (n, s)"
    by (cases "scrape_sources lib sources ([], load_seen file)")
  have s: "s = load_seen file \<union> offered sources"
    using scrape_sources_seen [of lib sources "[]" "load_seen file"] r by simp
  from scrape_sources_new [of lib sources "[]" "load_seen file"] r
  have n: "distinct (map link_of n)"
    "set (map link_of n) = PStr ` (offered sources - load_seen file)" by auto
  have eq: "new_entries = n" "file' = save_seen outcome file s"
    using assms r by (simp_all add: scrape_feeds_def)
  have fin: "finite s" unfolding s by (simp add: finite_offered finite_load_seen)
  have written: "load_seen (save_seen Written file s) = s"
    using fin by (simp add: save_seen_def load_seen_def)
  have failed: "save_seen OpenFailed file s = file" "save_seen WriteFailed file s = None"
    by (simp_all add: save_seen_def)
  show ?thesis
    unfolding eq using n s written failed by (cases outcome) auto
qed

lemma example_run_links:
  "map link_of (fst (scrape_feeds ascii_lib example_sources example_seen_file Written))
   = [PStr ''https://x.example/2'', PStr ''https://x.example/3'']"
  by (simp add: scrape_feeds_def example_sources_def example_seen_file_def load_seen_def
       example_item_def getattr_def dict_get_def Let_def link_of_def dict_get1_def feed_entry_def)

lemma example_run_file:
  "snd (scrape_feeds ascii_lib example_sources example_seen_file Written)
   = Some [''https://x.example/1'', ''https://x.example/2'', ''https://x.example/3'']"
  by code_simp

lemma example_run_write_failed:
  "snd (scrape_feeds ascii_lib example_sources example_seen_file WriteFailed) = None"
  by (simp add: scrape_feeds_def save_seen_def split: prod.splits)

theorem scrape_feeds_emits_each_new_link_once_witness:
  "map link_of (fst (scrape_feeds ascii_lib example_sources example_seen_file Written))
     = [PStr ''https://x.example/2'', PStr ''https://x.example/3'']
   \<and> distinct (map link_of
         (fst (scrape_feeds ascii_lib example_sources example_seen_file Written)))
   \<and> load_seen example_seen_file
        \<subseteq> load_seen (snd (scrape_feeds ascii_lib example_sources example_seen_file Written))
   \<and> snd (scrape_feeds ascii_lib example_sources example_seen_file OpenFailed)
       = example_seen_file
   \<and> snd (scrape_feeds ascii_lib example_sources example_seen_file WriteFailed) = None"
proof -
  have run: "scrape_feeds ascii_lib example_sources example_seen_file outcome
      = (fst (scrape_feeds ascii_lib example_sources example_seen_file outcome),
         snd (scrape_feeds ascii_lib example_sources example_seen_file outcome))" for outcome
    by simp
  show ?thesis
    using scrape_feeds_emits_each_new_link_once [OF run [of Written]]
      scrape_feeds_emits_each_new_link_once [OF run [of OpenFailed]]
      scrape_feeds_emits_each_new_link_once [OF run [of WriteFailed]]
      example_run_links
    by simp
qed

text \<open>
  Claim C2 as stated has the persisted seen set contain the loaded one after every run.
  When the write fails after the file was opened, the link that was in the file before
  the run is not in what the next run loads.
\<close>

theorem failed_write_loses_seen_set_counterexample:
  "''https://x.example/1'' \<in> load_seen example_seen_file
   \<and> ''https://x.example/1''
       \<notin> load_seen (snd (scrape_feeds ascii_lib example_sources example_seen_file WriteFailed))
   \<and> \<not> load_seen example_seen_file
         \<subseteq> load_seen (snd (scrape_feeds ascii_lib example_sources example_seen_file
                              WriteFailed))"
  using example_run_write_failed by (simp add: load_seen_def example_seen_file_def)

section \<open>The precedence of the geo resolver\<close>

lemma match_known_find:
  "match_known lib (PStr g) known =
     (case find (known_hit lib g) known of
        None \<Rightarrow> Inr None
      | Some kv \<Rightarrow> rbind (canonical (snd kv)) (\<lambda>r. Inr (Some r)))"
  by (induction known) (auto simp: rbind_def str_lower_def known_hit_def contains_ci_def)

lemma key_in_str: "key_in (PStr k) known = Inr (PStr k \<in> PStr ` fst ` set known)"
  by (auto simp: key_in_def map_of_eq_None_iff image_iff)

lemma company_hit_pair:
  "company_hit lib g known (company, h) =
     (contains_ci lib company g \<and> h \<in> PStr ` fst ` set known)"
  by (simp add: company_hit_def)

lemma match_company_find:
  assumes "\<forall>kv \<in> set hq. \<exists>k. snd kv = PStr k"
  shows "match_company lib (PStr g) known hq =
     (case find (company_hit lib g known) hq of
        None \<Rightarrow> Inr None
      | Some kv \<Rightarrow> rbind (subscript (PDict known) (py_str lib (snd kv)))
                     (\<lambda>loc. rbind (canonical loc) (\<lambda>r. Inr (Some r))))"
  using assms
proof (induction hq)
  case Nil
  then show ?case by simp
next
  case (Cons kv hq)
  obtain company h where kv: "kv = (company, h)" by (cases kv)
  from Cons.prems kv obtain k where h: "h = PStr k" by auto
  from Cons have IH: "match_company lib (PStr g) known hq =
     (case find (company_hit lib g known) hq of
        None \<Rightarrow> Inr None
      | Some kv \<Rightarrow> rbind (subscript (PDict known) (py_str lib (snd kv)))
                     (\<lambda>loc. rbind (canonical loc) (\<lambda>r. Inr (Some r))))" by simp
  show ?case
    unfolding kv h
    by (simp add: IH key_in_str rbind_def str_lower_def company_hit_pair contains_ci_def)
qed

lemma rbind_Some_case:
  "rbind (rbind m (\<lambda>r. Inr (Some r))) (\<lambda>x. case x of Some r \<Rightarrow> Inr r | None \<Rightarrow> f) = m"
  by (cases m) (simp_all add: rbind_def)

text \<open>
  Claim C3, amended.  For a guess that is a dictionary with a string as its name, and a
  gazetteer whose company table maps to strings: when some key of the known-location table
  is contained, ignoring case, in the name, the resolver returns the canonical name,
  latitude, longitude and country code of the first such key in the order of the table,
  whatever coordinates the guess carries; otherwise, when some company is contained in the
  name and its headquarters key is in the known-location table, it returns the canonical
  record of the headquarters of the first such company; otherwise it returns the guess's
  own coordinates, passed through \<^verbatim>\<open>float\<close>, when latitude and longitude are both
  present, and \<^verbatim>\<open>None\<close> when one of them is missing.
\<close>

theorem resolve_geo_precedence:
  assumes "d \<noteq> []"
    and "dict_get d ''name'' (PStr '''') = PStr g"
    and "dict_get geo_map ''known_locations'' (PDict []) = PDict known"
    and "dict_get geo_map ''company_hq'' (PDict []) = PDict hq"
    and "\<forall>kv \<in> set hq. \<exists>k. snd kv = PStr k"
  shows "(\<forall>key loc. find (known_hit lib g) known = Some (key, loc) \<longrightarrow>
            resolve_geo lib (PDict d) geo_map = canonical loc)
     \<and> (find (known_hit lib g) known = None \<longrightarrow>
          (\<forall>company k loc. find (company_hit lib g known) hq = Some (company, PStr k) \<longrightarrow>
             map_of known k = Some loc \<longrightarrow>
             resolve_geo lib (PDict d) geo_map = canonical loc)
          \<and> (find (company_hit lib g known) hq = None \<longrightarrow>
               resolve_geo lib (PDict d) geo_map = own_coordinates lib d))
     \<and> (dict_get1 d ''lat'' = PNone \<or> dict_get1 d ''lon'' = PNone \<longrightarrow>
          own_coordinates lib d = Inr PNone)
     \<and> (dict_get1 d ''lat'' \<noteq> PNone \<and> dict_get1 d ''lon'' \<noteq> PNone \<longrightarrow>
          own_coordinates lib d =
            rbind (py_float lib (dict_get1 d ''lat'')) (\<lambda>lat.
            rbind (py_float lib (dict_get1 d ''lon'')) (\<lambda>lon.
              Inr (PDict [(''name'', dict_get d ''name'' (PStr ''Unknown'')), (''lat'', lat),
                          (''lon'', lon),
                          (''countryCode'', dict_get d ''countryCode'' (PStr ''''))]))))"
proof -
  have a: "resolve_geo lib (PDict d) geo_map = canonical loc"
    if "find (known_hit lib g) known = Some (key, loc)" for key loc
    using that assms
    by (cases "canonical loc")
       (simp_all add: resolve_geo_def Let_def items_def match_known_find rbind_def)
  have b: "resolve_geo lib (PDict d) geo_map = canonical loc"
    if "find (known_hit lib g) known = None"
      "find (company_hit lib g known) hq = Some (company, PStr k)" "map_of known k = Some loc"
    for company k loc
    using that assms(1-4) match_company_find [OF assms(5), of lib g known]
    by (cases "canonical loc")
       (simp_all add: resolve_geo_def Let_def items_def match_known_find rbind_def
          subscript_def dict_item_def py_str_def)
  have c: "resolve_geo lib (PDict d) geo_map = own_coordinates lib d"
    if "find (known_hit lib g) known = None" "find (company_hit lib g known) hq = None"
    using that assms(1-4) match_company_find [OF assms(5), of lib g known]
    by (simp add: resolve_geo_def Let_def items_def match_known_find rbind_def)
  have d1: "own_coordinates lib d = Inr PNone"
    if "dict_get1 d ''lat'' = PNone \<or> dict_get1 d ''lon'' = PNone"
    using that by (auto simp: own_coordinates_def)
  have d2: "own_coordinates lib d =
            rbind (py_float lib (dict_get1 d ''lat'')) (\<lambda>lat.
            rbind (py_float lib (dict_get1 d ''lon'')) (\<lambda>lon.
              Inr (PDict [(''name'', dict_get d ''name'' (PStr ''Unknown'')), (''lat'', lat),
                          (''lon'', lon),
                          (''countryCode'', dict_get d ''countryCode'' (PStr ''''))])))"
    if "dict_get1 d ''lat'' \<noteq> PNone \<and> dict_get1 d ''lon'' \<noteq> PNone"
    using that
    by (auto simp: own_coordinates_def dict_get1_def dict_get_def dict_item_def rbind_def
          split: option.splits sum.splits)
  from a b c d1 d2 show ?thesis by blast
qed

lemma hit_indiana: "contains_ci ascii_lib ''Indiana'' ''Indianapolis, Indiana''"
  by code_simp

lemma find_known_examples:
  "find (known_hit ascii_lib ''Indianapolis, Indiana'') example_known
     = Some (''India'', india_record)"
  "find (known_hit ascii_lib ''OpenAI headquarters'') example_known = None"
  "find (known_hit ascii_lib ''Atlantis'') example_known = None"
  by code_simp+

lemma find_company_examples:
  "find (company_hit ascii_lib ''OpenAI headquarters'' example_known) example_hq
     = Some (''OpenAI'', PStr ''San Francisco'')"
  "find (company_hit ascii_lib ''Atlantis'' example_known) example_hq = None"
  by code_simp+

lemma canonical_examples:
  "canonical india_record = Inr india_record"
  "canonical indiana_record = Inr indiana_record"
  "canonical sf_record = Inr sf_record"
  by (simp_all add: canonical_def india_record_def indiana_record_def sf_record_def
        subscript_def dict_item_def rbind_def)

lemma example_tables:
  "dict_get example_geo_map ''known_locations'' (PDict []) = PDict example_known"
  "dict_get example_geo_map ''company_hq'' (PDict []) = PDict example_hq"
  "\<forall>kv \<in> set example_hq. \<exists>k. snd kv = PStr k"
  by (simp_all add: dict_get_def example_geo_map_def example_hq_def)

lemma example_guess_resolved:
  "resolve_geo ascii_lib (PDict example_guess) example_geo_map = Inr india_record"
proof -
  have "match_known ascii_lib (PStr ''Indianapolis, Indiana'') example_known
          = Inr (Some india_record)"
    by (simp add: match_known_find find_known_examples canonical_examples rbind_def)
  moreover have "dict_get example_guess ''name'' (PStr []) = PStr ''Indianapolis, Indiana''"
    "example_guess \<noteq> []"
    by (simp_all add: example_guess_def dict_get_def)
  ultimately show ?thesis
    by (simp add: resolve_geo_def example_tables items_def rbind_def)
qed

theorem resolve_geo_precedence_witness:
  "resolve_geo ascii_lib (PDict example_guess) example_geo_map = Inr india_record
   \<and> resolve_geo ascii_lib (PDict company_guess) example_geo_map = Inr sf_record
   \<and> resolve_geo ascii_lib (PDict unknown_guess) example_geo_map
       = Inr (PDict [(''name'', PStr ''Atlantis''), (''lat'', PFloat 1), (''lon'', PFloat 2.5),
                     (''countryCode'', PStr '''')])
   \<and> resolve_geo ascii_lib (PDict partial_guess) example_geo_map = Inr PNone"
proof -
  have g1: "example_guess \<noteq> []"
    "dict_get example_guess ''name'' (PStr '''') = PStr ''Indianapolis, Indiana''"
    by (simp_all add: dict_get_def example_guess_def)
  have g2: "company_guess \<noteq> []"
    "dict_get company_guess ''name'' (PStr '''') = PStr ''OpenAI headquarters''"
    by (simp_all add: dict_get_def company_guess_def)
  have g3: "unknown_guess \<noteq> []"
    "dict_get unknown_guess ''name'' (PStr '''') = PStr ''Atlantis''"
    by (simp_all add: dict_get_def unknown_guess_def)
  have g4: "partial_guess \<noteq> []"
    "dict_get partial_guess ''name'' (PStr '''') = PStr ''Atlantis''"
    by (simp_all add: dict_get_def partial_guess_def)
  have sf: "map_of example_known ''San Francisco'' = Some sf_record"
    by (simp add: example_known_def sf_record_def)
  have c1: "resolve_geo ascii_lib (PDict example_guess) example_geo_map = Inr india_record"
    using resolve_geo_precedence [OF g1 example_tables, of ascii_lib]
      find_known_examples canonical_examples by simp
  have c2: "resolve_geo ascii_lib (PDict company_guess) example_geo_map = Inr sf_record"
    using resolve_geo_precedence [OF g2 example_tables, of ascii_lib]
      find_known_examples find_company_examples canonical_examples sf by simp
  have c3: "resolve_geo ascii_lib (PDict unknown_guess) example_geo_map
       = Inr (PDict [(''name'', PStr ''Atlantis''), (''lat'', PFloat 1), (''lon'', PFloat 2.5),
                     (''countryCode'', PStr '''')])"
    using resolve_geo_precedence [OF g3 example_tables, of ascii_lib]
      find_known_examples find_company_examples
    by (simp add: unknown_guess_def dict_get1_def dict_get_def rbind_def ascii_lib_def
          ascii_float_def)
  have c4: "resolve_geo ascii_lib (PDict partial_guess) example_geo_map = Inr PNone"
    using resolve_geo_precedence [OF g4 example_tables, of ascii_lib]
      find_known_examples find_company_examples
    by (simp add: partial_guess_def dict_get1_def dict_get_def)
  from c1 c2 c3 c4 show ?thesis by simp
qed

text \<open>
  Claim C3 as stated fails when two keys are contained in the name: the guess
  ``Indianapolis, Indiana'' contains the key ``Indiana'', but the resolver returns the
  record of ``India'', the key that comes first.
\<close>

theorem resolve_geo_first_key_counterexample:
  "dict_get example_guess ''name'' (PStr '''') = PStr ''Indianapolis, Indiana''
   \<and> contains_ci ascii_lib ''Indiana'' ''Indianapolis, Indiana''
   \<and> map_of example_known ''Indiana'' = Some indiana_record
   \<and> canonical indiana_record = Inr indiana_record
   \<and> resolve_geo ascii_lib (PDict example_guess) example_geo_map \<noteq> Inr indiana_record"
proof -
  have "india_record \<noteq> indiana_record"
    by (simp add: india_record_def indiana_record_def)
  then show ?thesis
    using hit_indiana canonical_examples example_guess_resolved
    by (simp add: example_known_def indiana_record_def dict_get_def example_guess_def)
qed

section \<open>The rewriter: category and tags\<close>

lemma rbind_Inr: "rbind m f = Inr y \<longleftrightarrow> (\<exists>x. m = Inr x \<and> f x = Inr y)"
  by (cases m) (simp_all add: rbind_def)

lemma items_Inr: "items x = Inr d \<longleftrightarrow> x = PDict d"
  by (cases x) (simp_all add: items_def)

lemma rewrite_fields:
  assumes "rewrite lib entry geo_map result = Inr cand"
  shows "\<exists>r category. result = PDict r \<and> response_category lib r = Inr category
     \<and> map_of cand ''category'' = Some (PStr category)
     \<and> map_of cand ''tags'' = Some (PList (clean_tags lib (dict_get r ''tags'' (PList []))))"
  using assms unfolding rewrite_def Let_def rbind_Inr items_Inr
  by (elim exE conjE) auto

lemma process_article_rewrite:
  "process_article lib api_key entry geo_map response = Inr (Some cand) \<Longrightarrow>
     \<exists>result. response = Inr result \<and> rewrite lib entry geo_map result = Inr cand"
  by (auto simp: process_article_def rbind_def split: if_splits sum.splits)

lemma response_category_valid:
  "response_category lib r = Inr category \<Longrightarrow> category \<in> set VALID_CATEGORIES"
  by (auto simp: response_category_def rbind_Inr VALID_CATEGORIES_def split: if_splits)

lemma validate_category_valid: "fst (validate_category article) \<in> PStr ` set VALID_CATEGORIES"
  by (auto simp: validate_category_def Let_def VALID_CATEGORIES_def)

lemma bogus_run:
  "process_article ascii_lib ''key'' example_entry example_geo_map (Inr (PDict bogus_response))
     = Inr (Some bogus_candidate)"
  by code_simp

lemma one_tag_run:
  "process_article ascii_lib ''key'' example_entry example_geo_map (Inr (PDict one_tag_response))
     = Inr (Some one_tag_candidate)"
  by code_simp

text \<open>
  What holds of the category.  Every candidate the rewriter returns has a category of the
  fixed set of seven, and it is ``technology'' when the response has no category or one
  that is a string and, lowercased, is not in the set; the category the publisher
  computes for an article is always in the set, and is ``technology'' (also written back
  into the article) when the article's category is missing or not in the set.
\<close>

lemma category_always_valid:
  "(\<forall>cand. process_article lib api_key entry geo_map response = Inr (Some cand) \<longrightarrow>
       (\<exists>c \<in> set VALID_CATEGORIES. map_of cand ''category'' = Some (PStr c)))
   \<and> (\<forall>cand r. process_article lib api_key entry geo_map (Inr (PDict r)) = Inr (Some cand) \<longrightarrow>
         (map_of r ''category'' = None \<and> py_lower lib ''technology'' = ''technology''
          \<or> (\<exists>s. map_of r ''category'' = Some (PStr s) \<and> py_lower lib s \<notin> set VALID_CATEGORIES)) \<longrightarrow>
         map_of cand ''category'' = Some (PStr ''technology''))
   \<and> fst (validate_category article) \<in> PStr ` set VALID_CATEGORIES
   \<and> (dict_get article ''category'' (PStr ''technology'') \<notin> PStr ` set VALID_CATEGORIES \<longrightarrow>
         validate_category article
           = (PStr ''technology'', dict_set article ''category'' (PStr ''technology'')))
   \<and> (map_of article ''category'' = None \<longrightarrow>
         fst (validate_category article) = PStr ''technology'')"
proof -
  have a: "\<exists>c \<in> set VALID_CATEGORIES. map_of cand ''category'' = Some (PStr c)"
    if "process_article lib api_key entry geo_map response = Inr (Some cand)" for cand
    using process_article_rewrite [OF that] rewrite_fields response_category_valid by blast
  have b: "map_of cand ''category'' = Some (PStr ''technology'')"
    if run: "process_article lib api_key entry geo_map (Inr (PDict r)) = Inr (Some cand)"
      and bad: "map_of r ''category'' = None \<and> py_lower lib ''technology'' = ''technology''
          \<or> (\<exists>s. map_of r ''category'' = Some (PStr s) \<and> py_lower lib s \<notin> set VALID_CATEGORIES)"
    for cand r
  proof -
    from process_article_rewrite [OF run] have "rewrite lib entry geo_map (PDict r) = Inr cand"
      by simp
    from rewrite_fields [OF this] obtain category where
      c: "response_category lib r = Inr category" "map_of cand ''category'' = Some (PStr category)"
      by auto
    from c(1) bad have "category = ''technology''"
      by (auto simp: response_category_def rbind_Inr str_lower_def dict_get_def
            split: if_splits)
    with c(2) show ?thesis by simp
  qed
  have c: "validate_category article
           = (PStr ''technology'', dict_set article ''category'' (PStr ''technology''))"
    if "dict_get article ''category'' (PStr ''technology'') \<notin> PStr ` set VALID_CATEGORIES"
    using that by (simp add: validate_category_def Let_def)
  have d: "fst (validate_category article) = PStr ''technology''"
    if "map_of article ''category'' = None"
    using that by (simp add: validate_category_def Let_def dict_get_def)
  from a b c d validate_category_valid show ?thesis by blast
qed

lemma category_always_valid_example:
  "process_article ascii_lib ''key'' example_entry example_geo_map (Inr (PDict bogus_response))
     = Inr (Some bogus_candidate)
   \<and> map_of bogus_candidate ''category'' = Some (PStr ''technology'')
   \<and> validate_category [(''title'', PStr ''T''), (''category'', PStr ''bogus'')]
       = (PStr ''technology'', [(''title'', PStr ''T''), (''category'', PStr ''technology'')])
   \<and> fst (validate_category [(''title'', PStr ''T'')]) = PStr ''technology''"
proof -
  have low: "py_lower ascii_lib ''bogus'' \<notin> set VALID_CATEGORIES"
    by code_simp
  have cat: "map_of bogus_response ''category'' = Some (PStr ''bogus'')"
    by (simp add: bogus_response_def)
  have inv: "dict_get [(''title'', PStr ''T''), (''category'', PStr ''bogus'')] ''category''
               (PStr ''technology'') \<notin> PStr ` set VALID_CATEGORIES"
    by (simp add: dict_get_def VALID_CATEGORIES_def)
  show ?thesis
    using category_always_valid [of ascii_lib "''key''" example_entry example_geo_map
            "Inr (PDict bogus_response)" "[(''title'', PStr ''T''), (''category'', PStr ''bogus'')]"]
          category_always_valid [of ascii_lib "''key''" example_entry example_geo_map
            "Inr (PDict bogus_response)" "[(''title'', PStr ''T'')]"]
          bogus_run low cat inv
    by (simp add: dict_set_def)
qed

lemma candidate_category_was_string:
  assumes "process_article lib api_key entry geo_map (Inr (PDict r)) = Inr (Some cand)"
  shows "\<exists>s. dict_get r ''category'' (PStr ''technology'') = PStr s"
proof -
  from process_article_rewrite [OF assms]
  have "rewrite lib entry geo_map (PDict r) = Inr cand" by simp
  from rewrite_fields [OF this] obtain category where
    "response_category lib r = Inr category" by auto
  then show ?thesis
    by (cases "dict_get r ''category'' (PStr ''technology'')")
       (auto simp: response_category_def rbind_Inr str_lower_def)
qed

text \<open>
  Claim C4 says that an absent, unknown or invalid category is coerced to ``technology''
  by the rewriter and by the publisher alike.  The publisher does so for every value.
  The rewriter calls \<^verbatim>\<open>.lower()\<close> on the value before it checks it (line 304), so a
  category that is not a string, such as \<^verbatim>\<open>null\<close>, raises \<^verbatim>\<open>AttributeError\<close>; the
  exception is caught and the entry is dropped: no candidate is returned for it.
\<close>

theorem rewriter_drops_null_category:
  "map_of null_category_response ''category'' = Some PNone
   \<and> process_article ascii_lib ''key'' example_entry example_geo_map
        (Inr (PDict null_category_response)) = Inr None
   \<and> validate_category null_category_response
       = (PStr ''technology'',
          dict_set null_category_response ''category'' (PStr ''technology''))"
proof -
  have a: "process_article ascii_lib ''key'' example_entry example_geo_map
        (Inr (PDict null_category_response)) = Inr None"
    by code_simp
  have b: "validate_category null_category_response
       = (PStr ''technology'',
          dict_set null_category_response ''category'' (PStr ''technology''))"
    by (simp add: validate_category_def null_category_response_def dict_get_def
          VALID_CATEGORIES_def Let_def)
  from a b show ?thesis by (simp add: null_category_response_def)
qed

text \<open>
  Claim C8, amended.  The tags of the candidate are those of the response cleaned: at
  most seven, namely the first seven of the list, each turned into a string, lowercased
  and stripped; when the response's tags are a list the candidate has as many tags as
  the list up to seven (so possibly fewer than three), and when they are not a list it
  has none.
\<close>

theorem tags_capped_and_lowercased:
  "(\<forall>cand r. process_article lib api_key entry geo_map (Inr (PDict r)) = Inr (Some cand) \<longrightarrow>
       map_of cand ''tags'' = Some (PList (clean_tags lib (dict_get r ''tags'' (PList [])))))
   \<and> length (clean_tags lib tags) \<le> 7
   \<and> (\<forall>xs. tags = PList xs \<longrightarrow>
         clean_tags lib tags = map (clean_tag lib) (take 7 xs)
         \<and> length (clean_tags lib tags) = min 7 (length xs))
   \<and> ((\<forall>xs. tags \<noteq> PList xs) \<longrightarrow> clean_tags lib tags = [])"
proof -
  have a: "map_of cand ''tags'' = Some (PList (clean_tags lib (dict_get r ''tags'' (PList []))))"
    if run: "process_article lib api_key entry geo_map (Inr (PDict r)) = Inr (Some cand)"
    for cand r
  proof -
    from process_article_rewrite [OF run] have "rewrite lib entry geo_map (PDict r) = Inr cand"
      by simp
    from rewrite_fields [OF this] show ?thesis by auto
  qed
  have b: "length (clean_tags lib tags) \<le> 7"
    by (simp add: clean_tags_def Let_def)
  have c: "clean_tags lib tags = map (clean_tag lib) (take 7 xs)
         \<and> length (clean_tags lib tags) = min 7 (length xs)" if "tags = PList xs" for xs
    using that by (simp add: clean_tags_def clean_tag_def Let_def min.commute)
  have d: "clean_tags lib tags = []" if "\<forall>xs. tags \<noteq> PList xs"
    using that by (cases tags) (simp_all add: clean_tags_def)
  from a b c d show ?thesis by blast
qed

theorem tags_capped_and_lowercased_witness:
  "map_of bogus_candidate ''tags''
     = Some (PList [PStr ''a'', PStr ''b'', PStr ''c'', PStr ''d'', PStr ''e'', PStr ''f'',
                    PStr ''g''])
   \<and> clean_tags ascii_lib (dict_get bogus_response ''tags'' (PList []))
       = [PStr ''a'', PStr ''b'', PStr ''c'', PStr ''d'', PStr ''e'', PStr ''f'', PStr ''g'']
   \<and> length (clean_tags ascii_lib (dict_get bogus_response ''tags'' (PList []))) = 7
   \<and> clean_tags ascii_lib (PStr ''ai, chips'') = []"
proof -
  have t: "dict_get bogus_response ''tags'' (PList [])
     = PList [PStr ''A'', PStr ''B'', PStr ''C'', PStr ''D'', PStr ''E'', PStr ''F'',
              PStr ''G'', PStr ''H'']"
    by (simp add: bogus_response_def dict_get_def)
  have m: "map (clean_tag ascii_lib)
             [PStr ''A'', PStr ''B'', PStr ''C'', PStr ''D'', PStr ''E'', PStr ''F'', PStr ''G'']
     = [PStr ''a'', PStr ''b'', PStr ''c'', PStr ''d'', PStr ''e'', PStr ''f'', PStr ''g'']"
    by code_simp
  have n: "\<forall>xs. PStr ''ai, chips'' \<noteq> PList xs" by simp
  show ?thesis
    using tags_capped_and_lowercased [of ascii_lib "''key''" example_entry example_geo_map
            "dict_get bogus_response ''tags'' (PList [])"]
          tags_capped_and_lowercased [of ascii_lib "''key''" example_entry example_geo_map
            "PStr ''ai, chips''"]
          bogus_run t m n
    by (simp add: bogus_candidate_def)
qed

text \<open>
  Claim C8 as stated promises at least three tags; a response with one tag gives a
  candidate with one tag.
\<close>

theorem fewer_than_three_tags_counterexample:
  "process_article ascii_lib ''key'' example_entry example_geo_map (Inr (PDict one_tag_response))
     = Inr (Some one_tag_candidate)
   \<and> map_of one_tag_candidate ''tags'' = Some (PList [PStr ''chips''])
   \<and> \<not> 3 \<le> length [PStr ''chips'']"
  using one_tag_run by (simp add: one_tag_candidate_def)

section \<open>The review message for a candidate without a location\<close>

lemma format_candidate_null_geo_raises:
  assumes "map_of article ''geo'' = Some PNone"
  shows "format_candidate lib article = Inl AttributeError
       \<or> format_candidate lib article = Inl TypeError"
  using assms
  by (auto simp: format_candidate_def Let_def rbind_def attr_get_def dict_get_def emoji_of_def
        split: sum.splits pyval.splits)

text \<open>
  Claim C10 says that formatting the review message succeeds for every candidate the
  pipeline stores, showing ``Global'' when the location is null.  The rewriter returns its
  candidates with the key \<^verbatim>\<open>geo\<close> present and \<^verbatim>\<open>None\<close> as its value when no location
  was resolved; \<^verbatim>\<open>article.get("geo", {})\<close> then yields \<^verbatim>\<open>None\<close>, and
  \<^verbatim>\<open>format_candidate\<close> raises \<^verbatim>\<open>AttributeError\<close>.  In \<^verbatim>\<open>run_scrape\<close> the candidate
  has been stored by then, the run ends with an error message, and the candidates after
  it are never presented.
\<close>

theorem format_candidate_raises_on_null_geo:
  "process_article ascii_lib ''key'' example_entry example_geo_map (Inr (PDict one_tag_response))
     = Inr (Some one_tag_candidate)
   \<and> map_of one_tag_candidate ''geo'' = Some PNone
   \<and> format_candidate ascii_lib one_tag_candidate = Inl AttributeError
   \<and> run_scrape ascii_lib example_clock empty_state (Inr [one_tag_candidate, example_candidate])
       = \<lparr>state = \<lparr>pending = [(PStr ''2026-01-02-chips'', stored_candidate)], published = [],
                    editing = []\<rparr>,
          sent = [ScrapeFound 2, ScrapeError AttributeError], raised = None\<rparr>"
proof -
  have a: "format_candidate ascii_lib one_tag_candidate = Inl AttributeError"
    by code_simp
  have b: "run_scrape ascii_lib example_clock empty_state (Inr [one_tag_candidate, example_candidate])
       = \<lparr>state = \<lparr>pending = [(PStr ''2026-01-02-chips'', stored_candidate)], published = [],
                    editing = []\<rparr>,
          sent = [ScrapeFound 2, ScrapeError AttributeError], raised = None\<rparr>"
    by code_simp
  show ?thesis using one_tag_run a b by (simp add: one_tag_candidate_def)
qed

section \<open>The title edit\<close>

lemma map_of_dict_set:
  "map_of (dict_set d k v) k' = (if k' = k then Some v else map_of d k')"
  by (simp add: dict_set_def update_conv')

lemma retitled_fields:
  "map_of (retitled article new_title new_id) k =
     (if k = ''id'' then Some (PStr new_id)
      else if k = ''title'' then Some (PStr new_title)
      else map_of article k)"
  by (simp add: retitled_def map_of_dict_set)

text \<open>
  Claim C6, amended.  When a reviewer with an open edit session sends a new title for a
  pending candidate, the candidate is stored under the identifier recomputed from the
  new title and no longer under the old one when the two differ; its \<^verbatim>\<open>id\<close> is the new
  identifier and its \<^verbatim>\<open>title\<close> the new title, stripped; every other field of the
  candidate is as it was, and so are the other candidates and the published list; the
  edit session is closed.
\<close>

theorem title_edit_keeps_other_fields:
  assumes "map_of (editing st) user_id = Some article_id"
    and "map_of (pending st) (PStr article_id) = Some article"
    and "article \<noteq> []"
    and "new_title = strip lib text"
    and "new_id = make_article_id lib clk new_title"
    and "st' = state (handle_message lib clk st user_id text)"
  shows "map_of (pending st') (PStr new_id) = Some (retitled article new_title new_id)
     \<and> (new_id \<noteq> article_id \<longrightarrow> map_of (pending st') (PStr article_id) = None)
     \<and> (\<forall>k. k \<noteq> PStr new_id \<and> k \<noteq> PStr article_id \<longrightarrow>
            map_of (pending st') k = map_of (pending st) k)
     \<and> map_of (retitled article new_title new_id) ''id'' = Some (PStr new_id)
     \<and> map_of (retitled article new_title new_id) ''title'' = Some (PStr new_title)
     \<and> (\<forall>k. k \<noteq> ''id'' \<and> k \<noteq> ''title'' \<longrightarrow>
            map_of (retitled article new_title new_id) k = map_of article k)
     \<and> map_of (editing st') user_id = None
     \<and> published st' = published st"
proof -
  have p: "pending st' = AList.update (PStr new_id) (retitled article new_title new_id)
                           (AList.delete (PStr article_id) (pending st))"
    and e: "editing st' = AList.delete user_id (editing st)"
    and q: "published st' = published st"
    using assms by (auto simp: handle_message_def Let_def split: sum.splits)
  show ?thesis
    unfolding p e q by (simp add: update_conv' delete_conv' retitled_fields)
qed

lemma example_edit_ids:
  "strip ascii_lib '' New title '' = ''New title''"
  "make_article_id ascii_lib example_clock ''New title'' = ''2026-01-02-new-title''"
  by code_simp+

theorem title_edit_keeps_other_fields_witness:
  "map_of (pending (state (handle_message ascii_lib example_clock example_state 7
                            '' New title ''))) (PStr ''2026-01-02-new-title'')
     = Some (retitled example_candidate ''New title'' ''2026-01-02-new-title'')
   \<and> map_of (pending (state (handle_message ascii_lib example_clock example_state 7
                              '' New title ''))) (PStr ''2026-01-01-old-title'') = None
   \<and> map_of (retitled example_candidate ''New title'' ''2026-01-02-new-title'') ''category''
       = Some (PStr ''ai'')"
proof -
  have h: "map_of (editing example_state) 7 = Some ''2026-01-01-old-title''"
    "map_of (pending example_state) (PStr ''2026-01-01-old-title'') = Some example_candidate"
    "example_candidate \<noteq> []"
    by (simp_all add: example_state_def example_candidate_def)
  have neq: "''2026-01-02-new-title'' \<noteq> ''2026-01-01-old-title''" by simp
  have cat: "map_of example_candidate ''category'' = Some (PStr ''ai'')"
    by (simp add: example_candidate_def)
  show ?thesis
    using title_edit_keeps_other_fields [OF h example_edit_ids(1) [symmetric]
            example_edit_ids(2) [symmetric] refl] neq cat
    by simp
qed

text \<open>
  Claim C6 as stated has every field other than the identifier unchanged and the store
  key changed.  The title field changes with the edit; and a new title with the slug of
  the old one, on the day of the old identifier, leaves the store key as it was.
\<close>

theorem title_edit_changes_title_counterexample:
  "map_of (pending example_state) (PStr ''2026-01-01-old-title'') = Some example_candidate
   \<and> map_of example_candidate ''title'' = Some (PStr ''Old title'')
   \<and> map_of (pending (state (handle_message ascii_lib example_clock example_state 7
                              '' New title ''))) (PStr ''2026-01-02-new-title'')
       = Some edited_candidate
   \<and> map_of edited_candidate ''title'' = Some (PStr ''New title'')
   \<and> map (\<lambda>kv. fst kv)
         (pending (state (handle_message ascii_lib same_day_clock example_state 7
                            ''Old Title!'')))
       = [PStr ''2026-01-01-old-title'']"
proof -
  have a: "map_of (pending (state (handle_message ascii_lib example_clock example_state 7
                              '' New title ''))) (PStr ''2026-01-02-new-title'')
       = Some edited_candidate"
    by code_simp
  have b: "map (\<lambda>kv. fst kv)
         (pending (state (handle_message ascii_lib same_day_clock example_state 7
                            ''Old Title!'')))
       = [PStr ''2026-01-01-old-title'']"
    by code_simp
  show ?thesis
    using a b by (simp add: example_state_def example_candidate_def edited_candidate_def)
qed

section \<open>What the publisher changes in the article\<close>

lemma pub_article_upload: "pub_article (upload cfg lib gh category article) = article"
  by (simp add: upload_def split: sum.splits prod.splits)

lemma validate_category_frame:
  assumes "validate_category article = (category, article1)"
  shows "k \<noteq> ''category'' \<Longrightarrow> map_of article1 k = map_of article k"
    and "dict_get article ''category'' (PStr ''technology'') \<in> PStr ` set VALID_CATEGORIES
           \<Longrightarrow> article1 = article"
  using assms by (auto simp: validate_category_def Let_def map_of_dict_set split: if_splits)

lemma ensure_id_frame:
  assumes "ensure_id lib clk article = Inr article2"
  shows "k \<noteq> ''id'' \<Longrightarrow> map_of article2 k = map_of article k"
    and "map_of article ''id'' = Some (PStr s) \<Longrightarrow> s \<noteq> [] \<Longrightarrow> sanitize_id lib s = s
           \<Longrightarrow> article2 = article"
  using assms
  by (auto simp: ensure_id_def rbind_def map_of_dict_set dict_get1_def dict_get_def
        split: if_splits sum.splits pyval.splits)

lemma ensure_date_frame:
  "k \<noteq> ''date'' \<Longrightarrow> map_of (ensure_date clk article) k = map_of article k"
  "truthy (dict_get1 article ''date'') \<Longrightarrow> ensure_date clk article = article"
  by (auto simp: ensure_date_def map_of_dict_set)

lemma publish_to_github_article:
  "pub_article (publish_to_github cfg lib clk gh article) = article
   \<or> pub_article (publish_to_github cfg lib clk gh article) = snd (validate_category article)
   \<or> (\<exists>article2. ensure_id lib clk (snd (validate_category article)) = Inr article2
         \<and> pub_article (publish_to_github cfg lib clk gh article) = ensure_date clk article2)"
  by (cases "validate_category article")
     (auto simp: publish_to_github_def pub_article_upload split: sum.splits)

text \<open>
  Claim C7, amended.  The publisher assigns to the dictionary it is given, but to three
  keys only: every key other than \<^verbatim>\<open>category\<close>, \<^verbatim>\<open>id\<close> and \<^verbatim>\<open>date\<close> has after the
  call the value it had before; the category is unchanged when it is one of the fixed
  set, the date when it is there, and the identifier when it is a string that is already
  sanitised.
\<close>

theorem publisher_only_normalises:
  "(\<forall>k. k \<noteq> ''category'' \<and> k \<noteq> ''id'' \<and> k \<noteq> ''date'' \<longrightarrow>
        map_of (pub_article (publish_to_github cfg lib clk gh article)) k = map_of article k)
   \<and> (dict_get article ''category'' (PStr ''technology'') \<in> PStr ` set VALID_CATEGORIES \<longrightarrow>
        map_of (pub_article (publish_to_github cfg lib clk gh article)) ''category''
          = map_of article ''category'')
   \<and> (truthy (dict_get1 article ''date'') \<longrightarrow>
        map_of (pub_article (publish_to_github cfg lib clk gh article)) ''date''
          = map_of article ''date'')
   \<and> (\<forall>s. map_of article ''id'' = Some (PStr s) \<and> s \<noteq> [] \<and> sanitize_id lib s = s \<longrightarrow>
        map_of (pub_article (publish_to_github cfg lib clk gh article)) ''id''
          = map_of article ''id'')"
proof -
  obtain category article1 where v: "validate_category article = (category, article1)"
    by (cases "validate_category article")
  note vf = validate_category_frame [OF v]
  let ?out = "pub_article (publish_to_github cfg lib clk gh article)"
  from publish_to_github_article [of cfg lib clk gh article] v
  consider (same) "?out = article" | (cat) "?out = article1"
    | (full) article2 where "ensure_id lib clk article1 = Inr article2"
        "?out = ensure_date clk article2"
    by auto
  then show ?thesis
  proof cases
    case same
    then show ?thesis by simp
  next
    case cat
    then show ?thesis using vf by auto
  next
    case full
    note idf = ensure_id_frame [OF full(1)]
    have a: "map_of ?out k = map_of article k"
      if "k \<noteq> ''category'' \<and> k \<noteq> ''id'' \<and> k \<noteq> ''date''" for k
      using that full(2) vf(1) idf(1) ensure_date_frame(1) by simp
    have b: "map_of ?out ''category'' = map_of article ''category''"
      if "dict_get article ''category'' (PStr ''technology'') \<in> PStr ` set VALID_CATEGORIES"
      using that full(2) vf(2) idf(1) [of "''category''"] ensure_date_frame(1) [of "''category''"]
      by simp
    have c: "map_of ?out ''date'' = map_of article ''date''"
      if "truthy (dict_get1 article ''date'')"
    proof -
      have "map_of article2 ''date'' = map_of article ''date''"
        using idf(1) [of "''date''"] vf(1) [of "''date''"] by simp
      then have "dict_get1 article2 ''date'' = dict_get1 article ''date''"
        by (simp add: dict_get1_def dict_get_def)
      with that have "ensure_date clk article2 = article2"
        using ensure_date_frame(2) by simp
      then show ?thesis
        using full(2) idf(1) [of "''date''"] vf(1) [of "''date''"] by simp
    qed
    have d: "map_of ?out ''id'' = map_of article ''id''"
      if "map_of article ''id'' = Some (PStr s) \<and> s \<noteq> [] \<and> sanitize_id lib s = s" for s
    proof -
      have "map_of article1 ''id'' = Some (PStr s)"
        using that vf(1) [of "''id''"] by simp
      then have "article2 = article1" using idf(2) that by blast
      then show ?thesis
        using full(2) ensure_date_frame(1) [of "''id''"] vf(1) [of "''id''"] by simp
    qed
    from a b c d show ?thesis by blast
  qed
qed

lemma bogus_article_published:
  "pub_article (publish_to_github example_config ascii_lib example_clock github_missing
                  bogus_article) = normalised_bogus_article"
  by code_simp

theorem publisher_only_normalises_witness:
  "map_of (pub_article (publish_to_github example_config ascii_lib example_clock github_missing
                          example_article)) ''title'' = Some (PStr ''Old title'')
   \<and> map_of (pub_article (publish_to_github example_config ascii_lib example_clock
                            github_missing example_article)) ''category'' = Some (PStr ''ai'')
   \<and> map_of (pub_article (publish_to_github example_config ascii_lib example_clock
                            github_missing example_article)) ''date''
       = Some (PStr ''2026-01-01T00:00:00+00:00'')"
proof -
  have h: "dict_get example_article ''category'' (PStr ''technology'')
             \<in> PStr ` set VALID_CATEGORIES"
    "truthy (dict_get1 example_article ''date'')"
    "''title'' \<noteq> ''category'' \<and> ''title'' \<noteq> ''id'' \<and> ''title'' \<noteq> ''date''"
    by (simp_all add: example_article_def dict_get_def dict_get1_def VALID_CATEGORIES_def)
  have f: "map_of example_article ''title'' = Some (PStr ''Old title'')"
    "map_of example_article ''category'' = Some (PStr ''ai'')"
    "map_of example_article ''date'' = Some (PStr ''2026-01-01T00:00:00+00:00'')"
    by (simp_all add: example_article_def)
  show ?thesis
    using publisher_only_normalises [of example_config ascii_lib example_clock github_missing
            example_article] h f
    by simp
qed

text \<open>
  Claim C7 as stated has category, identifier and date unchanged for every article.  The
  publisher overwrites an unknown category and fills in the identifier and the date in
  the article itself.
\<close>

theorem publisher_assigns_to_article_counterexample:
  "map_of bogus_article ''category'' = Some (PStr ''bogus'')
   \<and> map_of bogus_article ''id'' = None
   \<and> map_of bogus_article ''date'' = None
   \<and> pub_article (publish_to_github example_config ascii_lib example_clock github_missing
                    bogus_article) = normalised_bogus_article
   \<and> map_of normalised_bogus_article ''category'' = Some (PStr ''technology'')
   \<and> map_of normalised_bogus_article ''id'' = Some (PStr ''2026-01-02-hello-world-again'')
   \<and> map_of normalised_bogus_article ''date'' = Some (PStr ''2026-01-02T10:00:00+00:00'')"
  using bogus_article_published
  by (simp add: bogus_article_def normalised_bogus_article_def)

section \<open>The identifier and the path of a published article\<close>

lemma rbind_consts: "rbind (Inr x) f = f x" "rbind (Inl e) f = Inl e"
  by (simp_all add: rbind_def)

lemma sub_runs_chars:
  "c \<in> set (sub_runs p s) \<Longrightarrow> c = CHR ''-'' \<or> (c \<in> set s \<and> \<not> p c)"
proof (induction p s rule: sub_runs.induct)
  case (1 p)
  then show ?case by simp
next
  case (2 p x xs)
  then show ?case
    by (auto split: if_splits dest: set_dropWhileD)
qed

lemma set_rstrip_with: "set (rstrip_with p s) \<subseteq> set s"
  using set_dropWhileD [of _ p "rev s"] by (auto simp: rstrip_with_def)

lemma set_strip_with: "set (strip_with p s) \<subseteq> set s"
  using set_rstrip_with [of p "dropWhile p s"] set_dropWhileD [of _ p s]
  by (auto simp: strip_with_def)

lemma sublist_rstrip_with: "sublist (rstrip_with p s) s"
proof -
  have "sublist (rev (dropWhile p (rev s))) (rev (rev s))"
    unfolding sublist_rev by simp
  then show ?thesis by (simp add: rstrip_with_def)
qed

lemma sublist_strip_with: "sublist (strip_with p s) s"
  unfolding strip_with_def
  using sublist_rstrip_with [of p "dropWhile p s"] sublist_dropWhile [of p s]
  by (rule sublist_order.order_trans)

lemma id_char_hyphen: "id_char CHR ''-''"
  by (simp add: id_char_def)

lemma id_char_ascii: "id_char c \<Longrightarrow> (of_char c :: nat) < 128"
  by (auto simp: id_char_def lower_alnum_def)

lemma digit_lower_alnum: "lower_alnum (digit n)"
proof -
  have "n mod 10 < length ''0123456789''" by simp
  then have "digit n \<in> set ''0123456789''"
    unfolding digit_def by (rule nth_mem)
  then show ?thesis by (auto simp: lower_alnum_def)
qed

lemma date_str_chars: "c \<in> set (date_str clk) \<Longrightarrow> id_char c"
  using digit_lower_alnum by (auto simp: date_str_def id_char_def)

lemma title_slug_chars: "c \<in> set (title_slug lib lowered) \<Longrightarrow> id_char c"
proof -
  assume "c \<in> set (title_slug lib lowered)"
  then have "c \<in> set (sub_runs (\<lambda>c. \<not> lower_alnum c) (ascii_ignore (py_nfkd lib lowered)))"
    unfolding title_slug_def Let_def
    using set_rstrip_with set_strip_with set_take_subset by fast
  from sub_runs_chars [OF this] show ?thesis by (auto simp: id_char_def)
qed

lemma sanitize_id_chars: "c \<in> set (sanitize_id lib old_id) \<Longrightarrow> id_char c"
proof -
  assume "c \<in> set (sanitize_id lib old_id)"
  then have "c \<in> set (sub_runs (\<lambda>c. \<not> id_char c)
                       (py_lower lib (ascii_ignore (py_nfkd lib old_id))))"
    unfolding sanitize_id_def Let_def
    using set_rstrip_with set_strip_with by fast
  from sub_runs_chars [OF this] show ?thesis by (auto simp: id_char_def)
qed

lemma length_rstrip_with: "length (rstrip_with p s) \<le> length s"
  by (simp add: rstrip_with_def length_dropWhile_le [of p "rev s", simplified])

lemma title_slug_length: "length (title_slug lib lowered) \<le> 60"
proof -
  have "length (title_slug lib lowered)
          \<le> length (take 60 (strip_with is_hyphen
               (sub_runs (\<lambda>c. \<not> lower_alnum c) (ascii_ignore (py_nfkd lib lowered)))))"
    unfolding title_slug_def Let_def by (rule length_rstrip_with)
  then show ?thesis by simp
qed

lemma sub_runs_no_hyphen_head:
  assumes "p CHR ''-''" and "s = [] \<or> \<not> p (hd s)"
  shows "\<not> prefix ''-'' (sub_runs p s)"
  using assms by (cases s) auto

lemma dropWhile_head: "dropWhile p s = [] \<or> \<not> p (hd (dropWhile p s))"
  using hd_dropWhile [of p s] by blast

lemma sub_runs_single_hyphens:
  assumes "p CHR ''-''"
  shows "\<not> sublist ''--'' (sub_runs p s)"
  using assms
proof (induction p s rule: sub_runs.induct)
  case (1 p)
  then show ?case by simp
next
  case (2 p c cs)
  show ?case
  proof (cases "p c")
    case True
    have "\<not> prefix ''-'' (sub_runs p (dropWhile p cs))"
      using sub_runs_no_hyphen_head [of p "dropWhile p cs"] "2.prems" dropWhile_head [of p cs]
      by blast
    then have "\<not> prefix ''--'' (CHR ''-'' # sub_runs p (dropWhile p cs))"
      by simp
    moreover have "\<not> sublist ''--'' (sub_runs p (dropWhile p cs))"
      using "2.IH"(1) True "2.prems" by simp
    ultimately show ?thesis
      using True by (simp add: sublist_Cons_right)
  next
    case False
    then have "c \<noteq> CHR ''-''" using "2.prems" by auto
    moreover have "\<not> sublist ''--'' (sub_runs p cs)"
      using "2.IH"(2) False "2.prems" by simp
    ultimately show ?thesis
      using False by (simp add: sublist_Cons_right)
  qed
qed

lemma title_slug_single_hyphens: "\<not> sublist ''--'' (title_slug lib lowered)"
proof
  let ?r = "sub_runs (\<lambda>c. \<not> lower_alnum c) (ascii_ignore (py_nfkd lib lowered))"
  assume a: "sublist ''--'' (title_slug lib lowered)"
  have "sublist (title_slug lib lowered) (take 60 (strip_with is_hyphen ?r))"
    unfolding title_slug_def Let_def by (rule sublist_rstrip_with)
  also have "sublist (take 60 (strip_with is_hyphen ?r)) (strip_with is_hyphen ?r)"
    by simp
  also have "sublist (strip_with is_hyphen ?r) ?r"
    by (rule sublist_strip_with)
  finally have "sublist ''--'' ?r"
    using a sublist_order.order_trans by blast
  moreover have "\<not> lower_alnum CHR ''-''" by (simp add: lower_alnum_def)
  ultimately show False using sub_runs_single_hyphens [of "\<lambda>c. \<not> lower_alnum c"] by blast
qed

lemma validate_category_string:
  assumes "validate_category article = (category, article1)"
  shows "\<exists>c \<in> set VALID_CATEGORIES. category = PStr c"
  using assms by (auto simp: validate_category_def Let_def VALID_CATEGORIES_def split: if_splits)

lemma ensure_id_result:
  assumes "ensure_id lib clk article = Inr article2"
  shows "\<exists>i. map_of article2 ''id'' = Some (PStr i)
     \<and> (\<not> truthy (dict_get1 article ''id'') \<longrightarrow>
          (\<exists>lowered. str_lower lib (dict_get article ''title'' (PStr ''untitled'')) = Inr lowered
             \<and> i = date_str clk @ ''-'' @ title_slug lib lowered))
     \<and> (truthy (dict_get1 article ''id'') \<longrightarrow>
          (\<exists>old. dict_get1 article ''id'' = PStr old \<and> i = sanitize_id lib old))"
proof (cases "truthy (dict_get1 article ''id'')")
  case False
  with assms obtain lowered where
    l: "str_lower lib (dict_get article ''title'' (PStr ''untitled'')) = Inr lowered"
       "article2 = dict_set article ''id'' (PStr (date_str clk @ ''-'' @ title_slug lib lowered))"
    by (auto simp: ensure_id_def rbind_Inr)
  with False show ?thesis
    by (auto simp: map_of_dict_set)
next
  case True
  with assms obtain old where
    o: "dict_get1 article ''id'' = PStr old"
       "article2 = (if sanitize_id lib old \<noteq> old
                    then dict_set article ''id'' (PStr (sanitize_id lib old)) else article)"
    by (auto simp: ensure_id_def split: pyval.splits)
  have "map_of article2 ''id'' = Some (PStr (sanitize_id lib old))"
  proof (cases "sanitize_id lib old = old")
    case False
    then show ?thesis using o(2) by (simp add: map_of_dict_set)
  next
    case eq: True
    from True o(1) have "map_of article ''id'' = Some (PStr old)"
      by (auto simp: dict_get1_def dict_get_def split: option.splits)
    then show ?thesis using o(2) eq by simp
  qed
  with True o(1) show ?thesis by auto
qed

lemma upload_path:
  assumes "pub_path (upload cfg lib gh category article) = Some p"
  shows "file_path_of lib category article = Inr p"
  using assms
  by (auto simp: upload_def rbind_Inr rbind_consts split: sum.splits prod.splits)

lemma publish_to_github_path:
  assumes "pub_path (publish_to_github cfg lib clk gh article) = Some p"
  shows "\<exists>category article1 article2.
      validate_category article = (category, article1)
    \<and> ensure_id lib clk article1 = Inr article2
    \<and> publish_to_github cfg lib clk gh article
        = upload cfg lib gh category (ensure_date clk article2)"
  using assms
  by (cases "validate_category article")
     (auto simp: publish_to_github_def split: if_splits sum.splits)

lemma publish_path_shape:
  assumes path: "pub_path (publish_to_github cfg lib clk gh article) = Some p"
  shows "\<exists>c i. p = ''content/'' @ c @ ''/'' @ i @ ''.mdx''
         \<and> c \<in> set VALID_CATEGORIES
         \<and> fst (validate_category article) = PStr c
         \<and> map_of (pub_article (publish_to_github cfg lib clk gh article)) ''id'' = Some (PStr i)
         \<and> (\<not> truthy (dict_get1 article ''id'') \<longrightarrow>
              (\<exists>lowered. str_lower lib (dict_get article ''title'' (PStr ''untitled''))
                            = Inr lowered
                 \<and> i = date_str clk @ ''-'' @ title_slug lib lowered))
         \<and> (truthy (dict_get1 article ''id'') \<longrightarrow>
              (\<exists>old. dict_get1 article ''id'' = PStr old \<and> i = sanitize_id lib old))"
proof -
  from publish_to_github_path [OF path] obtain category article1 article2 where
    v: "validate_category article = (category, article1)"
    and e: "ensure_id lib clk article1 = Inr article2"
    and u: "publish_to_github cfg lib clk gh article
              = upload cfg lib gh category (ensure_date clk article2)"
    by blast
  from validate_category_string [OF v] obtain c where
    c: "c \<in> set VALID_CATEGORIES" "category = PStr c" by blast
  have same_id: "dict_get1 article1 ''id'' = dict_get1 article ''id''"
    and same_title: "dict_get article1 ''title'' (PStr ''untitled'')
                       = dict_get article ''title'' (PStr ''untitled'')"
    using validate_category_frame(1) [OF v, of "''id''"]
      validate_category_frame(1) [OF v, of "''title''"]
    by (simp_all add: dict_get1_def dict_get_def)
  from ensure_id_result [OF e] obtain i where
    i: "map_of article2 ''id'' = Some (PStr i)"
       "\<not> truthy (dict_get1 article ''id'') \<longrightarrow>
          (\<exists>lowered. str_lower lib (dict_get article ''title'' (PStr ''untitled''))
                        = Inr lowered
             \<and> i = date_str clk @ ''-'' @ title_slug lib lowered)"
       "truthy (dict_get1 article ''id'') \<longrightarrow>
          (\<exists>old. dict_get1 article ''id'' = PStr old \<and> i = sanitize_id lib old)"
    unfolding same_id same_title by blast
  have id3: "map_of (ensure_date clk article2) ''id'' = Some (PStr i)"
    using i(1) ensure_date_frame(1) [of "''id''" clk article2] by simp
  from path u have "file_path_of lib category (ensure_date clk article2) = Inr p"
    using upload_path by simp
  with id3 c(2) have p: "p = ''content/'' @ c @ ''/'' @ i @ ''.mdx''"
    by (auto simp: file_path_of_def rbind_Inr dict_item_def py_str_def)
  have out: "pub_article (publish_to_github cfg lib clk gh article) = ensure_date clk article2"
    using u pub_article_upload by simp
  show ?thesis
    using p c(1) v c(2) id3 out i(2,3)
    by (intro exI [of _ c] exI [of _ i]) auto
qed

text \<open>
  Claim C9, amended.  Whenever the publisher computes a path, it is
  \<^verbatim>\<open>content/<category>/<id>.mdx\<close> with a category of the fixed set and an identifier,
  the one the article has after the call, made of the characters \<^verbatim>\<open>a-z\<close>, \<^verbatim>\<open>0-9\<close> and
  the hyphen only, hence of ASCII characters.  An absent identifier is the date, a hyphen
  and the slug of the lowercased title: folded by NFKD, stripped of what is not ASCII,
  every run of other characters replaced by one hyphen, hyphens stripped at both ends, at
  most sixty characters, no two hyphens in a row.  An identifier that is there is folded
  and stripped of what is not ASCII in the same way and lowercased, and every run of
  characters other than \<^verbatim>\<open>a-z\<close>, \<^verbatim>\<open>0-9\<close> and the hyphen is replaced by one hyphen, with
  hyphens stripped at both ends; its own hyphens stay as they are and its length is not
  capped.
\<close>

theorem path_identifier_is_ascii:
  "(\<forall>p. pub_path (publish_to_github cfg lib clk gh article) = Some p \<longrightarrow>
      (\<exists>c i. p = ''content/'' @ c @ ''/'' @ i @ ''.mdx''
         \<and> c \<in> set VALID_CATEGORIES
         \<and> map_of (pub_article (publish_to_github cfg lib clk gh article)) ''id'' = Some (PStr i)
         \<and> (\<forall>ch \<in> set i. id_char ch \<and> (of_char ch :: nat) < 128)
         \<and> (\<not> truthy (dict_get1 article ''id'') \<longrightarrow>
              (\<exists>lowered. str_lower lib (dict_get article ''title'' (PStr ''untitled''))
                            = Inr lowered
                 \<and> i = date_str clk @ ''-'' @ title_slug lib lowered))
         \<and> (truthy (dict_get1 article ''id'') \<longrightarrow>
              (\<exists>old. dict_get1 article ''id'' = PStr old \<and> i = sanitize_id lib old))))
   \<and> length (title_slug lib lowered) \<le> 60
   \<and> \<not> sublist ''--'' (title_slug lib lowered)
   \<and> (\<forall>ch \<in> set (title_slug lib lowered). id_char ch)
   \<and> (\<forall>ch \<in> set (sanitize_id lib old_id). id_char ch)"
proof -
  have main: "\<exists>c i. p = ''content/'' @ c @ ''/'' @ i @ ''.mdx''
         \<and> c \<in> set VALID_CATEGORIES
         \<and> map_of (pub_article (publish_to_github cfg lib clk gh article)) ''id'' = Some (PStr i)
         \<and> (\<forall>ch \<in> set i. id_char ch \<and> (of_char ch :: nat) < 128)
         \<and> (\<not> truthy (dict_get1 article ''id'') \<longrightarrow>
              (\<exists>lowered. str_lower lib (dict_get article ''title'' (PStr ''untitled''))
                            = Inr lowered
                 \<and> i = date_str clk @ ''-'' @ title_slug lib lowered))
         \<and> (truthy (dict_get1 article ''id'') \<longrightarrow>
              (\<exists>old. dict_get1 article ''id'' = PStr old \<and> i = sanitize_id lib old))"
    if path: "pub_path (publish_to_github cfg lib clk gh article) = Some p" for p
  proof -
    from publish_path_shape [OF path] obtain c i where
      s: "p = ''content/'' @ c @ ''/'' @ i @ ''.mdx''" "c \<in> set VALID_CATEGORIES"
         "map_of (pub_article (publish_to_github cfg lib clk gh article)) ''id'' = Some (PStr i)"
         "\<not> truthy (dict_get1 article ''id'') \<longrightarrow>
            (\<exists>lowered. str_lower lib (dict_get article ''title'' (PStr ''untitled''))
                          = Inr lowered
               \<and> i = date_str clk @ ''-'' @ title_slug lib lowered)"
         "truthy (dict_get1 article ''id'') \<longrightarrow>
            (\<exists>old. dict_get1 article ''id'' = PStr old \<and> i = sanitize_id lib old)"
      by blast
    have chars: "\<forall>ch \<in> set i. id_char ch"
    proof (cases "truthy (dict_get1 article ''id'')")
      case False
      with s(4) obtain lowered where "i = date_str clk @ ''-'' @ title_slug lib lowered"
        by blast
      then show ?thesis
        using date_str_chars title_slug_chars id_char_hyphen by auto
    next
      case True
      with s(5) obtain old where "i = sanitize_id lib old" by blast
      then show ?thesis using sanitize_id_chars by auto
    qed
    show ?thesis
      using s chars id_char_ascii
      by (intro exI [of _ c] exI [of _ i]) auto
  qed
  show ?thesis
    using main title_slug_length title_slug_single_hyphens title_slug_chars sanitize_id_chars
    by blast
qed

lemma example_paths:
  "pub_path (publish_to_github example_config ascii_lib example_clock github_missing
               bogus_article) = Some ''content/technology/2026-01-02-hello-world-again.mdx''"
  "pub_path (publish_to_github example_config ascii_lib example_clock github_missing
               example_article) = Some ''content/ai/2026-01-01-old-title.mdx''"
  "pub_path (publish_to_github example_config ascii_lib example_clock github_missing
               hyphen_article) = Some ''content/ai/2026-01-01-big----news.mdx''"
  by code_simp+

lemma example_slugs:
  "title_slug ascii_lib (py_lower ascii_lib ''Big -- News'') = ''big-news''"
  "sanitize_id ascii_lib ''2026-01-01-Big -- News'' = ''2026-01-01-big----news''"
  by code_simp+

lemma example_article_id:
  "map_of (pub_article (publish_to_github example_config ascii_lib example_clock github_missing
                          example_article)) ''id'' = Some (PStr ''2026-01-01-old-title'')"
  by code_simp

theorem path_identifier_is_ascii_witness:
  "pub_path (publish_to_github example_config ascii_lib example_clock github_missing
               bogus_article) = Some ''content/technology/2026-01-02-hello-world-again.mdx''
   \<and> list_all (\<lambda>ch. id_char ch \<and> (of_char ch :: nat) < 128) ''2026-01-02-hello-world-again''
   \<and> pub_path (publish_to_github example_config ascii_lib example_clock github_missing
                 example_article) = Some ''content/ai/2026-01-01-old-title.mdx''
   \<and> list_all (\<lambda>ch. id_char ch \<and> (of_char ch :: nat) < 128) ''2026-01-01-old-title''"
proof -
  let ?b = "publish_to_github example_config ascii_lib example_clock github_missing bogus_article"
  let ?e = "publish_to_github example_config ascii_lib example_clock github_missing
              example_article"
  have ib: "map_of (pub_article ?b) ''id'' = Some (PStr ''2026-01-02-hello-world-again'')"
    using bogus_article_published by (simp add: normalised_bogus_article_def)
  from path_identifier_is_ascii [of example_config ascii_lib example_clock github_missing
         bogus_article] example_paths(1)
  obtain i where "map_of (pub_article ?b) ''id'' = Some (PStr i)"
    "\<forall>ch \<in> set i. id_char ch \<and> (of_char ch :: nat) < 128"
    by blast
  with ib have a: "\<forall>ch \<in> set ''2026-01-02-hello-world-again''.
                     id_char ch \<and> (of_char ch :: nat) < 128"
    by simp
  from path_identifier_is_ascii [of example_config ascii_lib example_clock github_missing
         example_article] example_paths(2)
  obtain j where "map_of (pub_article ?e) ''id'' = Some (PStr j)"
    "\<forall>ch \<in> set j. id_char ch \<and> (of_char ch :: nat) < 128"
    by blast
  with example_article_id have b: "\<forall>ch \<in> set ''2026-01-01-old-title''.
                     id_char ch \<and> (of_char ch :: nat) < 128"
    by simp
  from a b example_paths show ?thesis by (simp only: list_all_iff)
qed

text \<open>
  Claim C9 as stated has an identifier that is already there sanitised the same way as a
  generated one, that is, with separators collapsed to single hyphens.  An identifier
  with a hyphenated gap keeps several hyphens in a row, where the slug of the same text
  has one.
\<close>

theorem existing_id_keeps_hyphens_counterexample:
  "map_of hyphen_article ''id'' = Some (PStr ''2026-01-01-Big -- News'')
   \<and> pub_path (publish_to_github example_config ascii_lib example_clock github_missing
                 hyphen_article) = Some ''content/ai/2026-01-01-big----news.mdx''
   \<and> sublist ''--'' ''2026-01-01-big----news''
   \<and> title_slug ascii_lib (py_lower ascii_lib ''Big -- News'') = ''big-news''"
proof -
  have "sublist ''--'' ''2026-01-01-big----news''" by code_simp
  then show ?thesis
    using example_paths(3) example_slugs by (simp add: hyphen_article_def)
qed

section \<open>Create or update\<close>











end
